theory Spec2Isabelle
  imports Main
begin

section \<open>Strings and numbers as JavaScript prints them\<close>

text \<open>
  The server is TypeScript; its strings are modelled as \<open>string\<close> and its integral
  numbers (epoch milliseconds, offsets in minutes, calendar fields) as \<open>int\<close>.
  \<open>show_nat\<close> and \<open>show_int\<close> are the decimal rendering that a template literal
  \<^verbatim>\<open>`${n}`\<close> gives an integral number; \<open>padStart0\<close> is \<^verbatim>\<open>String.prototype.padStart(n, "0")\<close>.
\<close>

definition digit :: "nat \<Rightarrow> char" where
  "digit n = ''0123456789'' ! (n mod 10)"

function show_nat :: "nat \<Rightarrow> string" where
  "show_nat n = (if n < 10 then [digit n] else show_nat (n div 10) @ [digit (n mod 10)])"
  by pat_completeness auto
termination
  by (relation "measure id") auto

declare show_nat.simps [simp del]

definition show_int :: "int \<Rightarrow> string" where
  "show_int i = (if i < 0 then ''-'' @ show_nat (nat (- i)) else show_nat (nat i))"

definition padStart0 :: "nat \<Rightarrow> string \<Rightarrow> string" where
  "padStart0 n s = replicate (n - length s) (CHR ''0'') @ s"

definition isDigit :: "char \<Rightarrow> bool" where
  "isDigit c = (c \<in> set ''0123456789'')"

definition digitVal :: "char \<Rightarrow> int" where
  "digitVal c = int (of_char c) - 48"

fun startsWith :: "string \<Rightarrow> string \<Rightarrow> bool" where
  "startsWith s [] = True"
| "startsWith [] (p # ps) = False"
| "startsWith (c # cs) (p # ps) = (c = p \<and> startsWith cs ps)"

text \<open>\<^verbatim>\<open>s.includes(sub)\<close>: \<open>sub\<close> occurs in \<open>s\<close> as a contiguous substring.\<close>

fun str_includes :: "string \<Rightarrow> string \<Rightarrow> bool" where
  "str_includes [] sub = (sub = [])"
| "str_includes (c # cs) sub = (startsWith (c # cs) sub \<or> str_includes cs sub)"

definition endsWith :: "string \<Rightarrow> string \<Rightarrow> bool" where
  "endsWith s suf = (length suf \<le> length s \<and> drop (length s - length suf) s = suf)"

section \<open>The time-difference string of convertTime\<close>

text \<open>
  \<^verbatim>\<open>
  const offsetDiffMinutes = targetDt.offset - sourceDt.offset;
  const offsetDiffHours = offsetDiffMinutes / 60;
  if (Number.isInteger(offsetDiffHours)) {
      timeDiffStr = `${offsetDiffHours >= 0 ? '+' : ''}${offsetDiffHours}h`;
  } else {
      timeDiffStr = `${offsetDiffHours >= 0 ? '+' : ''}${offsetDiffHours.toFixed(2)
                       .replace(/\.00$/, '').replace(/(\.\d)0$/, '$1')}h`;
  }
  \<close>
  \<open>offsetDiffMinutes\<close> is an integral number \<open>d\<close>, and the quotient \<open>d / 60\<close> is kept
  exactly, as the pair of \<open>d\<close> and the divisor 60. For the offsets a zone database
  holds (a few thousand minutes at most) the double \<open>d / 60\<close> is integral exactly when
  60 divides \<open>d\<close>, and \<open>toFixed(2)\<close> of it is the nearest hundredth of the exact
  quotient: \<open>100 * d / 60 = 5 * d / 3\<close> is never within \<open>1/6\<close> of a half-integer when it
  is not an integer, so the rounding error of the double cannot change the result and no
  tie occurs. \<open>toFixed\<close> prints the sign, the integral part, a point and two digits.
\<close>

definition Number_isInteger_div60 :: "int \<Rightarrow> bool" where
  "Number_isInteger_div60 d = (d mod 60 = 0)"

definition toFixed2_div60 :: "int \<Rightarrow> string" where
  "toFixed2_div60 d =
     (let n = nat ((\<bar>d\<bar> * 100 + 30) div 60)
      in (if d < 0 then ''-'' else []) @ show_nat (n div 100) @ ''.''
           @ padStart0 2 (show_nat (n mod 100)))"

text \<open>\<^verbatim>\<open>.replace(/\.00$/, '')\<close>\<close>

definition replace_dot00 :: "string \<Rightarrow> string" where
  "replace_dot00 s = (if endsWith s ''.00'' then take (length s - 3) s else s)"

text \<open>\<^verbatim>\<open>.replace(/(\.\d)0$/, '$1')\<close>\<close>

definition replace_trailing0 :: "string \<Rightarrow> string" where
  "replace_trailing0 s =
     (let n = length s
      in if 3 \<le> n \<and> s ! (n - 3) = CHR ''.'' \<and> isDigit (s ! (n - 2)) \<and> s ! (n - 1) = CHR ''0''
         then take (n - 1) s else s)"

definition timeDiffStr :: "int \<Rightarrow> string" where
  "timeDiffStr offsetDiffMinutes =
     (if Number_isInteger_div60 offsetDiffMinutes
      then (if offsetDiffMinutes \<ge> 0 then ''+'' else [])
             @ show_int (offsetDiffMinutes div 60) @ ''h''
      else (if offsetDiffMinutes \<ge> 0 then ''+'' else [])
             @ replace_trailing0 (replace_dot00 (toFixed2_div60 offsetDiffMinutes)) @ ''h'')"

text \<open>
  The rendering as the specification words it, for comparison with the code's: the
  difference in hours, sign-prefixed; integral values as \<open>\<plusminus>Nh\<close>; otherwise rounded to two
  decimals, a trailing zero stripped.
\<close>

definition spec_time_difference :: "int \<Rightarrow> string" where
  "spec_time_difference d =
     (let sgn = (if d \<ge> 0 then ''+'' else ''-'');
          hundredths = nat ((\<bar>d\<bar> * 100 + 30) div 60);
          whole = show_nat (hundredths div 100);
          tenths = digit (hundredths mod 100 div 10);
          last_digit = digit (hundredths mod 10)
      in if d mod 60 = 0 then sgn @ show_nat (nat (\<bar>d\<bar> div 60)) @ ''h''
         else if hundredths mod 100 = 0 then sgn @ whole @ ''h''
         else if hundredths mod 10 = 0 then sgn @ whole @ ''.'' @ [tenths] @ ''h''
         else sgn @ whole @ ''.'' @ [tenths, last_digit] @ ''h'')"

section \<open>The platform: clock, zone database, system zone\<close>

text \<open>
  The time functions of \<^verbatim>\<open>server.ts\<close> are written against the luxon library
  (\<^verbatim>\<open>DateTime\<close>, \<^verbatim>\<open>Settings\<close>, \<^verbatim>\<open>IANAZone\<close>), which reads the clock and the
  zone database of the JavaScript runtime. What the runtime supplies is a parameter of the
  model, the record \<open>env\<close>:
  \<^item> \<open>clock\<close>: the reading of \<^verbatim>\<open>Date.now()\<close> (milliseconds since the epoch) for the call
    at hand, one reading per call;
  \<^item> \<open>intlValidZone\<close>: whether \<^verbatim>\<open>new Intl.DateTimeFormat("en-US", {timeZone: z})\<close>
    accepts the name;
  \<^item> \<open>resolveZone\<close>: the zone object luxon's \<^verbatim>\<open>normalizeZone\<close> makes of a name
    (\<^verbatim>\<open>"utc"\<close> becomes the fixed-offset zone 0, a geographic name an IANA zone);
  \<^item> \<open>ianaOffset\<close>, \<open>systemOffset\<close>: the UTC offset, in minutes, of an IANA zone and of
    the system zone at an instant;
  \<^item> \<open>systemZoneName\<close>: the name of the system zone, \<^verbatim>\<open>Settings.defaultZone.name\<close>.
  Offsets are whole minutes, as they are for every zone at present-day instants. A name
  that passed \<^verbatim>\<open>IANAZone.isValidZone\<close> resolves to a valid zone, so every
  \<^verbatim>\<open>DateTime\<close> the server builds is valid and \<^verbatim>\<open>toISO\<close> never returns null: the
  fallback \<^verbatim>\<open>?? 'Invalid Date'\<close> is not taken and has no branch here.
\<close>

datatype zone = SystemZone | IANAZone string | FixedOffsetZone int

record env =
  clock :: int
  intlValidZone :: "string \<Rightarrow> bool"
  resolveZone :: "string \<Rightarrow> zone"
  ianaOffset :: "string \<Rightarrow> int \<Rightarrow> int"
  systemOffset :: "int \<Rightarrow> int"
  systemZoneName :: string

text \<open>\<^verbatim>\<open>zone.offset(ts)\<close>, \<^verbatim>\<open>zone.equals(other)\<close> and \<^verbatim>\<open>zone.isUniversal\<close> of luxon's three zone classes.\<close>

fun zoneOffset :: "env \<Rightarrow> zone \<Rightarrow> int \<Rightarrow> int" where
  "zoneOffset e SystemZone t = systemOffset e t"
| "zoneOffset e (IANAZone name) t = ianaOffset e name t"
| "zoneOffset e (FixedOffsetZone fixed) t = fixed"

fun zone_equals :: "zone \<Rightarrow> zone \<Rightarrow> bool" where
  "zone_equals SystemZone SystemZone = True"
| "zone_equals (IANAZone a) (IANAZone b) = (a = b)"
| "zone_equals (FixedOffsetZone a) (FixedOffsetZone b) = (a = b)"
| "zone_equals _ _ = False"

fun isUniversal :: "zone \<Rightarrow> bool" where
  "isUniversal (FixedOffsetZone fixed) = True"
| "isUniversal _ = False"

section \<open>luxon's DateTime, as far as the server uses it\<close>

text \<open>
  A \<^verbatim>\<open>DateTime\<close> holds the instant \<open>ts\<close>, its zone and the offset \<open>offs\<close> (luxon's \<^verbatim>\<open>o\<close>) it was built
  with; its calendar fields \<^verbatim>\<open>c\<close> are \<open>tsToObj ts offs\<close>. The fields of a local time are
  kept as the day number since the epoch and the time of day; year, month and day are
  computed from the day number only when a date is printed (\<open>civil\<close> below), so that
  \<^verbatim>\<open>objToLocalTS\<close>, which is \<^verbatim>\<open>Date.UTC\<close> of the fields, is plain arithmetic.
\<close>

record dateTime =
  ts :: int
  zone :: zone
  offs :: int

record localObj =
  epochDay :: int
  hour :: int
  minute :: int
  second :: int
  millisecond :: int

definition tsToObj :: "int \<Rightarrow> int \<Rightarrow> localObj" where
  "tsToObj t offset =
     (let l = t + offset * 60 * 1000
      in \<lparr>epochDay = l div 86400000,
          hour = l mod 86400000 div 3600000,
          minute = l mod 3600000 div 60000,
          second = l mod 60000 div 1000,
          millisecond = l mod 1000\<rparr>)"

definition objToLocalTS :: "localObj \<Rightarrow> int" where
  "objToLocalTS obj =
     epochDay obj * 86400000 + hour obj * 3600000 + minute obj * 60000
       + second obj * 1000 + millisecond obj"

text \<open>
  \<^verbatim>\<open>
  function fixOffset(localTS, o, tz) {
    let utcGuess = localTS - o * 60 * 1000;
    const o2 = tz.offset(utcGuess);
    if (o === o2) return [utcGuess, o];
    utcGuess -= (o2 - o) * 60 * 1000;
    const o3 = tz.offset(utcGuess);
    if (o2 === o3) return [utcGuess, o2];
    return [localTS - Math.min(o2, o3) * 60 * 1000, Math.max(o2, o3)];
  }
  \<close>
\<close>

definition fixOffset :: "env \<Rightarrow> int \<Rightarrow> int \<Rightarrow> zone \<Rightarrow> int \<times> int" where
  "fixOffset e localTS off tz =
     (let utcGuess = localTS - off * 60 * 1000;
          o2 = zoneOffset e tz utcGuess
      in if off = o2 then (utcGuess, off)
         else (let utcGuess2 = utcGuess - (o2 - off) * 60 * 1000;
                   o3 = zoneOffset e tz utcGuess2
               in if o2 = o3 then (utcGuess2, o2)
                  else (localTS - min o2 o3 * 60 * 1000, max o2 o3)))"

definition objToTS :: "env \<Rightarrow> localObj \<Rightarrow> int \<Rightarrow> zone \<Rightarrow> int \<times> int" where
  "objToTS e obj off tz = fixOffset e (objToLocalTS obj) off tz"

text \<open>\<^verbatim>\<open>DateTime.now()\<close>: the clock's instant in \<^verbatim>\<open>Settings.defaultZone\<close>, the system zone.\<close>

definition DateTime_now :: "env \<Rightarrow> dateTime" where
  "DateTime_now e = \<lparr>ts = clock e, zone = SystemZone, offs = zoneOffset e SystemZone (clock e)\<rparr>"

text \<open>
  \<^verbatim>\<open>dt.setZone(name)\<close>: the same object when the zone is the one it has, otherwise the same
  instant in the new zone, with that zone's offset at the instant.
\<close>

definition setZone :: "env \<Rightarrow> dateTime \<Rightarrow> string \<Rightarrow> dateTime" where
  "setZone e dt name =
     (let z = resolveZone e name
      in if zone_equals z (zone dt) then dt
         else \<lparr>ts = ts dt, zone = z, offs = zoneOffset e z (ts dt)\<rparr>)"

text \<open>
  \<^verbatim>\<open>dt.set({hour, minute, second: 0, millisecond: 0})\<close>: the fields of \<open>dt\<close> with the four
  replaced go through \<^verbatim>\<open>objToTS\<close> with the offset \<open>dt\<close> has; the clone keeps the old
  offset when the instant did not move and asks the zone otherwise.
\<close>

definition set_time :: "env \<Rightarrow> dateTime \<Rightarrow> int \<Rightarrow> int \<Rightarrow> dateTime" where
  "set_time e dt h m =
     (let mixed = (tsToObj (ts dt) (offs dt))\<lparr>hour := h, minute := m, second := 0, millisecond := 0\<rparr>;
          t = fst (objToTS e mixed (offs dt) (zone dt))
      in if t = ts dt then dt
         else \<lparr>ts = t, zone = zone dt, offs = zoneOffset e (zone dt) t\<rparr>)"

text \<open>
  \<^verbatim>\<open>DateTime.fromFormat(timeStr, 'HH:mm')\<close>. The format compiles to the regular expression
  \<^verbatim>\<open>^(\d{2})(:)(\d{2})$\<close>; the two numbers become the hour and minute of today in the
  system zone (\<^verbatim>\<open>fromObject\<close>), which checks them with \<^verbatim>\<open>hasInvalidTimeData\<close>:
  \<^verbatim>\<open>
  const validHour = integerBetween(hour, 0, 23) ||
        (hour === 24 && minute === 0 && second === 0 && millisecond === 0),
      validMinute = integerBetween(minute, 0, 59), ...
  \<close>
  \<open>None\<close> is the invalid \<^verbatim>\<open>DateTime\<close> (\<^verbatim>\<open>isValid\<close> false).
\<close>

fun match_HHmm :: "string \<Rightarrow> (int \<times> int) option" where
  "match_HHmm [a, b, c, d, f] =
     (if isDigit a \<and> isDigit b \<and> c = CHR '':'' \<and> isDigit d \<and> isDigit f
      then Some (digitVal a * 10 + digitVal b, digitVal d * 10 + digitVal f) else None)"
| "match_HHmm _ = None"

definition hasInvalidTimeData :: "localObj \<Rightarrow> bool" where
  "hasInvalidTimeData obj =
     (let validHour = ((0 \<le> hour obj \<and> hour obj \<le> 23)
                       \<or> (hour obj = 24 \<and> minute obj = 0 \<and> second obj = 0 \<and> millisecond obj = 0));
          validMinute = (0 \<le> minute obj \<and> minute obj \<le> 59);
          validSecond = (0 \<le> second obj \<and> second obj \<le> 59);
          validMillisecond = (0 \<le> millisecond obj \<and> millisecond obj \<le> 999)
      in \<not> (validHour \<and> validMinute \<and> validSecond \<and> validMillisecond))"

definition fromFormat_HHmm :: "env \<Rightarrow> string \<Rightarrow> dateTime option" where
  "fromFormat_HHmm e timeStr =
     (case match_HHmm timeStr of
        None \<Rightarrow> None
      | Some (h, m) \<Rightarrow>
          (let tsNow = clock e;
               offsetProvis = zoneOffset e SystemZone tsNow;
               normalized = (tsToObj tsNow offsetProvis)
                              \<lparr>hour := h, minute := m, second := 0, millisecond := 0\<rparr>
           in if hasInvalidTimeData normalized then None
              else (let (tsFinal, offsetFinal) = objToTS e normalized offsetProvis SystemZone
                    in Some \<lparr>ts = tsFinal, zone = SystemZone, offs = offsetFinal\<rparr>)))"

text \<open>The getters \<^verbatim>\<open>dt.hour\<close>, \<^verbatim>\<open>dt.minute\<close> and \<^verbatim>\<open>dt.offset\<close>.\<close>

definition dt_hour :: "dateTime \<Rightarrow> int" where
  "dt_hour dt = hour (tsToObj (ts dt) (offs dt))"

definition dt_minute :: "dateTime \<Rightarrow> int" where
  "dt_minute dt = minute (tsToObj (ts dt) (offs dt))"

definition dt_offset :: "dateTime \<Rightarrow> int" where
  "dt_offset dt = offs dt"

section \<open>Printing a DateTime: toISO\<close>

text \<open>
  \<open>civil\<close> is the proleptic Gregorian date (year, month, day) of a day number since
  1970-01-01, which is what \<^verbatim>\<open>Date.prototype.getUTCFullYear\<close>, \<^verbatim>\<open>getUTCMonth\<close> (plus one)
  and \<^verbatim>\<open>getUTCDate\<close> return for a timestamp of that day.
\<close>

definition civil :: "int \<Rightarrow> int \<times> int \<times> int" where
  "civil days =
     (let z = days + 719468;
          era = z div 146097;
          doe = z mod 146097;
          yoe = (doe - doe div 1460 + doe div 36524 - doe div 146096) div 365;
          doy = doe - (365 * yoe + yoe div 4 - yoe div 100);
          mp = (5 * doy + 2) div 153;
          d = doy - (153 * mp + 2) div 5 + 1;
          m = (if mp < 10 then mp + 3 else mp - 9);
          y = yoe + era * 400 + (if m \<le> 2 then 1 else 0)
      in (y, m, d))"

text \<open>
  luxon's \<^verbatim>\<open>padStart(input, n)\<close> for numbers:
  \<^verbatim>\<open>
  const isNeg = input < 0;
  if (isNeg) padded = "-" + ("" + -input).padStart(n, "0");
  else padded = ("" + input).padStart(n, "0");
  \<close>
\<close>

definition padStart :: "int \<Rightarrow> nat \<Rightarrow> string" where
  "padStart input n =
     (if input < 0 then ''-'' @ padStart0 n (show_int (- input)) else padStart0 n (show_int input))"

text \<open>
  \<^verbatim>\<open>
  function toISODate(o, extended) {
    const longFormat = o.c.year > 9999 || o.c.year < 0;
    let c = "";
    if (longFormat && o.c.year >= 0) c += "+";
    c += padStart(o.c.year, longFormat ? 6 : 4);
    c += "-"; c += padStart(o.c.month); c += "-"; c += padStart(o.c.day);
    return c;
  }
  \<close>
\<close>

definition toISODate :: "dateTime \<Rightarrow> string" where
  "toISODate dt =
     (let (y, m, d) = civil (epochDay (tsToObj (ts dt) (offs dt)));
          longFormat = (y > 9999 \<or> y < 0)
      in (if longFormat \<and> y \<ge> 0 then ''+'' else [])
           @ padStart y (if longFormat then 6 else 4) @ ''-'' @ padStart m 2 @ ''-'' @ padStart d 2)"

text \<open>
  \<^verbatim>\<open>
  function toISOTime(o, extended, suppressSeconds, suppressMilliseconds, includeOffset, extendedZone) {
    let c = padStart(o.c.hour);
    c += ":"; c += padStart(o.c.minute);
    if (o.c.millisecond !== 0 || o.c.second !== 0 || !suppressSeconds) c += ":";
    if (o.c.millisecond !== 0 || o.c.second !== 0 || !suppressSeconds) {
      c += padStart(o.c.second);
      if (o.c.millisecond !== 0 || !suppressMilliseconds) {
        c += "."; c += padStart(o.c.millisecond, 3);
      }
    }
    if (includeOffset) {
      if (o.isOffsetFixed && o.offset === 0 && !extendedZone) c += "Z";
      else if (o.o < 0) {
        c += "-"; c += padStart(Math.trunc(-o.o / 60)); c += ":"; c += padStart(Math.trunc(-o.o % 60));
      } else {
        c += "+"; c += padStart(Math.trunc(o.o / 60)); c += ":"; c += padStart(Math.trunc(o.o % 60));
      }
    }
    return c;
  }
  \<close>
  The server always calls \<^verbatim>\<open>toISO({ includeOffset: true, suppressMilliseconds: true })\<close>, so
  \<^verbatim>\<open>suppressSeconds\<close> and \<^verbatim>\<open>extendedZone\<close> are false and the format is the extended one.
  \<^verbatim>\<open>suppressMilliseconds\<close> drops the milliseconds only when they are zero.
\<close>

definition toISOTime :: "dateTime \<Rightarrow> bool \<Rightarrow> string" where
  "toISOTime dt suppressMilliseconds =
     (let c = tsToObj (ts dt) (offs dt)
      in padStart (hour c) 2 @ '':'' @ padStart (minute c) 2 @ '':'' @ padStart (second c) 2
         @ (if millisecond c \<noteq> 0 \<or> \<not> suppressMilliseconds
            then ''.'' @ padStart (millisecond c) 3 else [])
         @ (if isUniversal (zone dt) \<and> offs dt = 0 then ''Z''
            else if offs dt < 0
            then ''-'' @ padStart ((- offs dt) div 60) 2 @ '':'' @ padStart ((- offs dt) mod 60) 2
            else ''+'' @ padStart (offs dt div 60) 2 @ '':'' @ padStart (offs dt mod 60) 2))"

definition toISO :: "dateTime \<Rightarrow> string" where
  "toISO dt = toISODate dt @ ''T'' @ toISOTime dt True"

section \<open>The time functions of server.ts\<close>

record TimeResult =
  timezone :: string
  datetime :: string

record TimeConversionResult =
  source :: TimeResult
  target :: TimeResult
  time_difference :: string

text \<open>A thrown \<^verbatim>\<open>new Error(message)\<close>.\<close>

datatype jsError = Error (message: string)

definition getLocalTimezone :: "env \<Rightarrow> string" where
  "getLocalTimezone e = systemZoneName e"

text \<open>
  \<^verbatim>\<open>IANAZone.isValidZone(tz)\<close>: false for the empty string, otherwise whether
  \<^verbatim>\<open>Intl.DateTimeFormat\<close> accepts the name.
\<close>

definition isValidTimezone :: "env \<Rightarrow> string \<Rightarrow> bool" where
  "isValidTimezone e tz = (tz \<noteq> [] \<and> intlValidZone e tz)"

definition getCurrentTime :: "env \<Rightarrow> string \<Rightarrow> jsError + TimeResult" where
  "getCurrentTime e timezoneName =
     (if \<not> isValidTimezone e timezoneName
      then Inl (Error (''Invalid timezone: '' @ timezoneName))
      else (let nowInZone = setZone e (DateTime_now e) timezoneName
            in Inr \<lparr>timezone = timezoneName, datetime = toISO nowInZone\<rparr>))"

text \<open>
  \<open>convertTime_dts\<close> is \<^verbatim>\<open>convertTime\<close> up to the two \<^verbatim>\<open>DateTime\<close> values
  \<^verbatim>\<open>sourceDt\<close> and \<^verbatim>\<open>targetDt\<close>; \<open>convertTime\<close> builds the result from them.
\<close>

definition convertTime_dts :: "env \<Rightarrow> string \<Rightarrow> string \<Rightarrow> string \<Rightarrow> jsError + dateTime \<times> dateTime" where
  "convertTime_dts e sourceTz timeStr targetTz =
     (if \<not> isValidTimezone e sourceTz
      then Inl (Error (''Invalid source timezone: '' @ sourceTz))
      else if \<not> isValidTimezone e targetTz
      then Inl (Error (''Invalid target timezone: '' @ targetTz))
      else (case fromFormat_HHmm e timeStr of
              None \<Rightarrow> Inl (Error ''Invalid time format. Expected HH:MM [24-hour format]'')
            | Some parsedTime \<Rightarrow>
                (let sourceDt = set_time e (setZone e (DateTime_now e) sourceTz)
                                  (dt_hour parsedTime) (dt_minute parsedTime);
                     targetDt = setZone e sourceDt targetTz
                 in Inr (sourceDt, targetDt))))"

definition convertTime :: "env \<Rightarrow> string \<Rightarrow> string \<Rightarrow> string \<Rightarrow> jsError + TimeConversionResult" where
  "convertTime e sourceTz timeStr targetTz =
     (case convertTime_dts e sourceTz timeStr targetTz of
        Inl err \<Rightarrow> Inl err
      | Inr (sourceDt, targetDt) \<Rightarrow>
          (let offsetDiffMinutes = dt_offset targetDt - dt_offset sourceDt
           in Inr \<lparr>source = \<lparr>timezone = sourceTz, datetime = toISO sourceDt\<rparr>,
                   target = \<lparr>timezone = targetTz, datetime = toISO targetDt\<rparr>,
                   time_difference = timeDiffStr offsetDiffMinutes\<rparr>))"

section \<open>The tools registered by buildMcpServer\<close>

text \<open>
  \<^verbatim>\<open>JSON.stringify(result, null, 2)\<close> of the two result objects. \<open>JSON_quote\<close> is the
  quoting of a string value: the quote and the backslash are escaped, control characters
  below 0x20 are written \<^verbatim>\<open>\b \t \n \f \r\<close> or \<^verbatim>\<open>\u00XX\<close>.
\<close>

definition hexDigit :: "nat \<Rightarrow> char" where
  "hexDigit n = ''0123456789abcdef'' ! (n mod 16)"

definition JSON_escape :: "char \<Rightarrow> string" where
  "JSON_escape c =
     (if c = CHR 0x22 then [CHR 0x5C, CHR 0x22]
      else if c = CHR 0x5C then [CHR 0x5C, CHR 0x5C]
      else if c = CHR 0x08 then [CHR 0x5C, CHR ''b'']
      else if c = CHR 0x09 then [CHR 0x5C, CHR ''t'']
      else if c = CHR 0x0A then [CHR 0x5C, CHR ''n'']
      else if c = CHR 0x0C then [CHR 0x5C, CHR ''f'']
      else if c = CHR 0x0D then [CHR 0x5C, CHR ''r'']
      else if (of_char c :: nat) < 32
      then [CHR 0x5C, CHR ''u'', CHR ''0'', CHR ''0'',
            hexDigit (of_char c div 16), hexDigit (of_char c mod 16)]
      else [c])"

definition JSON_quote :: "string \<Rightarrow> string" where
  "JSON_quote s = [CHR 0x22] @ concat (map JSON_escape s) @ [CHR 0x22]"

definition JSON_stringify_TimeResult :: "nat \<Rightarrow> TimeResult \<Rightarrow> string" where
  "JSON_stringify_TimeResult indent r =
     ''{'' @ [CHR 0x0A]
     @ replicate (indent + 2) (CHR '' '') @ JSON_quote ''timezone'' @ '': '' @ JSON_quote (timezone r)
     @ '','' @ [CHR 0x0A]
     @ replicate (indent + 2) (CHR '' '') @ JSON_quote ''datetime'' @ '': '' @ JSON_quote (datetime r)
     @ [CHR 0x0A] @ replicate indent (CHR '' '') @ ''}''"

definition JSON_stringify_TimeConversionResult :: "TimeConversionResult \<Rightarrow> string" where
  "JSON_stringify_TimeConversionResult r =
     ''{'' @ [CHR 0x0A]
     @ ''  '' @ JSON_quote ''source'' @ '': '' @ JSON_stringify_TimeResult 2 (source r)
     @ '','' @ [CHR 0x0A]
     @ ''  '' @ JSON_quote ''target'' @ '': '' @ JSON_stringify_TimeResult 2 (target r)
     @ '','' @ [CHR 0x0A]
     @ ''  '' @ JSON_quote ''time_difference'' @ '': '' @ JSON_quote (time_difference r)
     @ [CHR 0x0A] @ ''}''"

text \<open>
  The value a tool handler returns, \<^verbatim>\<open>{ content: [{ type: "text", text }] }\<close>. A handler is
  an async function: it either returns this value (\<open>Inr\<close>) or throws, its promise
  rejected (\<open>Inl\<close>), which the protocol layer would report as a fault.
\<close>

datatype contentItem = TextContent (text_of: string)

record callToolResult =
  content :: "contentItem list"

text \<open>
  \<^verbatim>\<open>timezone || localTz\<close> for an optional string argument: the default is taken when the
  argument is undefined and when it is the empty string, which is falsy.
\<close>

fun js_or :: "string option \<Rightarrow> string \<Rightarrow> string" where
  "js_or None dflt = dflt"
| "js_or (Some s) dflt = (if s = [] then dflt else s)"

text \<open>
  \<^verbatim>\<open>buildMcpServer()\<close> runs once for each connection. It reads the system zone name
  (\<^verbatim>\<open>const localTz = getLocalTimezone();\<close>) in the environment of that moment, and the two
  handlers it registers close over the constant. The handlers run later, in the
  environment of the tool call.
\<close>

record mcpServer =
  localTz :: string

definition buildMcpServer :: "env \<Rightarrow> mcpServer" where
  "buildMcpServer e = \<lparr>localTz = getLocalTimezone e\<rparr>"

definition get_current_time_handler ::
  "mcpServer \<Rightarrow> env \<Rightarrow> string option \<Rightarrow> jsError + callToolResult" where
  "get_current_time_handler srv e timezone_arg =
     (let effectiveTimezone = js_or timezone_arg (localTz srv)
      in case getCurrentTime e effectiveTimezone of
           Inr result \<Rightarrow> Inr \<lparr>content = [TextContent (JSON_stringify_TimeResult 0 result)]\<rparr>
         | Inl error \<Rightarrow>
             (let helpfulMessage =
                    (if str_includes (message error) ''Invalid timezone''
                     then ''Error: Invalid timezone specified ('' @ [CHR 0x27] @ effectiveTimezone
                          @ [CHR 0x27] @ ''). Please provide a valid IANA timezone name (e.g., ''
                          @ [CHR 0x27] @ ''America/New_York'' @ [CHR 0x27] @ '', ''
                          @ [CHR 0x27] @ ''Europe/London'' @ [CHR 0x27] @ '').''
                     else ''Error processing get_current_time: '' @ message error)
              in Inr \<lparr>content = [TextContent helpfulMessage]\<rparr>))"

definition convert_time_handler ::
  "mcpServer \<Rightarrow> env \<Rightarrow> string option \<Rightarrow> string \<Rightarrow> string option \<Rightarrow> jsError + callToolResult" where
  "convert_time_handler srv e source_timezone time target_timezone =
     (let effectiveSourceTz = js_or source_timezone (localTz srv);
          effectiveTargetTz = js_or target_timezone (localTz srv)
      in case convertTime e effectiveSourceTz time effectiveTargetTz of
           Inr result \<Rightarrow> Inr \<lparr>content = [TextContent (JSON_stringify_TimeConversionResult result)]\<rparr>
         | Inl error \<Rightarrow>
             (let helpfulMessage =
                    (if str_includes (message error) ''Invalid source timezone''
                     then ''Error: Invalid source timezone specified ('' @ [CHR 0x27]
                          @ effectiveSourceTz @ [CHR 0x27]
                          @ ''). Please provide a valid IANA timezone name.''
                     else if str_includes (message error) ''Invalid target timezone''
                     then ''Error: Invalid target timezone specified ('' @ [CHR 0x27]
                          @ effectiveTargetTz @ [CHR 0x27]
                          @ ''). Please provide a valid IANA timezone name.''
                     else if str_includes (message error) ''Invalid time format''
                     then ''Error: Invalid time format specified ('' @ [CHR 0x27] @ time @ [CHR 0x27]
                          @ ''). Please use 24-hour HH:MM format (e.g., '' @ [CHR 0x27] @ ''14:30''
                          @ [CHR 0x27] @ '').''
                     else ''Error processing convert_time: '' @ message error)
              in Inr \<lparr>content = [TextContent helpfulMessage]\<rparr>))"

section \<open>Transport registries and the Express routes\<close>

text \<open>
  \<^verbatim>\<open>
  const streamableTransports: Record<string, StreamableHTTPServerTransport> = {};
  const sseTransports: Record<string, SSEServerTransport> = {};
  \<close>
  The two registries are plain objects holding references to transport objects. The
  transports live in a store, \<open>heap\<close>, a list addressed by position; a registry maps a
  key to an address. Only what the routes read of a transport is kept: its kind, its
  \<^verbatim>\<open>sessionId\<close> (undefined for a streamable transport until the SDK initialises the
  session) and the server \<^verbatim>\<open>buildMcpServer()\<close> connected to it.
\<close>

datatype transportKind = StreamableHTTP | SSE

record transportObj =
  kind :: transportKind
  sessionId :: "string option"
  boundServer :: mcpServer

record serverState =
  streamableTransports :: "string \<rightharpoonup> nat"
  sseTransports :: "string \<rightharpoonup> nat"
  heap :: "transportObj list"

definition initState :: serverState where
  "initState = \<lparr>streamableTransports = Map.empty, sseTransports = Map.empty, heap = []\<rparr>"

text \<open>
  Reading \<^verbatim>\<open>table[key]\<close> of an object created by \<^verbatim>\<open>{}\<close> finds the object's own
  property, if there is one, and otherwise the property of that name inherited from
  \<^verbatim>\<open>Object.prototype\<close>; only when neither exists is the value undefined. Every inherited
  member is a function or an object, hence truthy. Writing \<^verbatim>\<open>table[key] = v\<close> and
  \<^verbatim>\<open>delete table[key]\<close> change own properties only (the keys written are the results of
  \<^verbatim>\<open>randomUUID()\<close>, see \<open>isUUID\<close>).
\<close>

datatype jsValue = Undefined | ObjectRef nat | PrototypeMember string

definition objectPrototypeKeys :: "string list" where
  "objectPrototypeKeys =
     [''constructor'', ''__defineGetter__'', ''__defineSetter__'', ''hasOwnProperty'',
      ''__lookupGetter__'', ''__lookupSetter__'', ''isPrototypeOf'', ''propertyIsEnumerable'',
      ''toString'', ''valueOf'', ''__proto__'', ''toLocaleString'']"

definition js_get :: "(string \<rightharpoonup> nat) \<Rightarrow> string \<Rightarrow> jsValue" where
  "js_get table key =
     (case table key of
        Some a \<Rightarrow> ObjectRef a
      | None \<Rightarrow> if key \<in> set objectPrototypeKeys then PrototypeMember key else Undefined)"

text \<open>
  \<^verbatim>\<open>crypto.randomUUID()\<close> returns 36 characters: lower-case hexadecimal digits in groups
  of 8, 4, 4, 4 and 12, separated by hyphens.
\<close>

definition isHexLower :: "char \<Rightarrow> bool" where
  "isHexLower c = (c \<in> set ''0123456789abcdef'')"

definition isUUID :: "string \<Rightarrow> bool" where
  "isUUID s =
     (length s = 36
      \<and> list_all isHexLower (take 8 s) \<and> s ! 8 = CHR ''-''
      \<and> list_all isHexLower (take 4 (drop 9 s)) \<and> s ! 13 = CHR ''-''
      \<and> list_all isHexLower (take 4 (drop 14 s)) \<and> s ! 18 = CHR ''-''
      \<and> list_all isHexLower (take 4 (drop 19 s)) \<and> s ! 23 = CHR ''-''
      \<and> list_all isHexLower (drop 24 s))"

text \<open>
  A request to \<^verbatim>\<open>/mcp\<close>: the \<^verbatim>\<open>mcp-session-id\<close> header, if any, and whether
  \<^verbatim>\<open>isInitializeRequest(req.body)\<close> holds. A response is the 400 the route writes
  itself, or whatever the transport writes (\<open>TransportHandles\<close>), or none because the
  handler threw (\<open>Thrown\<close>).
\<close>

record mcpRequest =
  sessionIdHeader :: "string option"
  isInitializeBody :: bool

record jsonRpcErrorBody =
  jsonrpc :: string
  error_code :: int
  error_message :: string
  id_is_null :: bool

datatype httpResponse =
    StatusJson nat jsonRpcErrorBody
  | StatusText nat string
  | TransportHandles nat
  | Thrown jsError

text \<open>
  What the SDK does inside \<^verbatim>\<open>transport.handleRequest\<close> for the initialize request of a
  new streamable transport at address \<open>a\<close>: it sets \<^verbatim>\<open>this.sessionId\<close> to the result of
  \<^verbatim>\<open>sessionIdGenerator()\<close> and calls \<^verbatim>\<open>onsessioninitialized(id)\<close>, the server's closure
  \<^verbatim>\<open>id => { streamableTransports[id] = transport; }\<close>.
\<close>

definition sdk_set_sessionId :: "serverState \<Rightarrow> nat \<Rightarrow> string \<Rightarrow> serverState" where
  "sdk_set_sessionId st a sid = st\<lparr>heap := (heap st)[a := (heap st ! a)\<lparr>sessionId := Some sid\<rparr>]\<rparr>"

definition onsessioninitialized :: "serverState \<Rightarrow> nat \<Rightarrow> string \<Rightarrow> serverState" where
  "onsessioninitialized st a sid = st\<lparr>streamableTransports := (streamableTransports st)(sid \<mapsto> a)\<rparr>"

text \<open>
  \<^verbatim>\<open>
  transport.onclose = () => {
    if (transport.sessionId) { delete streamableTransports[transport.sessionId]; }
  };
  \<close>
\<close>

definition streamable_onclose :: "serverState \<Rightarrow> nat \<Rightarrow> serverState" where
  "streamable_onclose st a =
     (if a < length (heap st)
      then (case sessionId (heap st ! a) of
              None \<Rightarrow> st
            | Some sid \<Rightarrow> if sid = [] then st
                          else st\<lparr>streamableTransports := (streamableTransports st)(sid := None)\<rparr>)
      else st)"

text \<open>
  The route \<^verbatim>\<open>app.all("/mcp", ...)\<close>. \<open>sdkInit\<close> is the outcome of the SDK's handling of
  an accepted handshake: \<open>Some id\<close> when it initialises the session with the generated
  identifier \<open>id\<close>, \<open>None\<close> when it answers without initialising (wrong \<^verbatim>\<open>Accept\<close>
  header, for instance). \<open>e\<close> is the environment in which \<^verbatim>\<open>buildMcpServer()\<close> runs.
\<close>

definition handle_mcp ::
  "env \<Rightarrow> string option \<Rightarrow> serverState \<Rightarrow> mcpRequest \<Rightarrow> httpResponse \<times> serverState" where
  "handle_mcp e sdkInit st req =
     (let found = (case sessionIdHeader req of
                     None \<Rightarrow> Undefined
                   | Some sid \<Rightarrow> if sid = [] then Undefined
                                 else js_get (streamableTransports st) sid);
          noSessionId = (case sessionIdHeader req of None \<Rightarrow> True | Some sid \<Rightarrow> sid = [])
      in case found of
           ObjectRef a \<Rightarrow> (TransportHandles a, st)
         | PrototypeMember k \<Rightarrow> (Thrown (Error ''transport.handleRequest is not a function''), st)
         | Undefined \<Rightarrow>
             if noSessionId \<and> isInitializeBody req
             then (let a = length (heap st);
                       transport = \<lparr>kind = StreamableHTTP, sessionId = None,
                                    boundServer = buildMcpServer e\<rparr>;
                       st1 = st\<lparr>heap := heap st @ [transport]\<rparr>
                   in case sdkInit of
                        None \<Rightarrow> (TransportHandles a, st1)
                      | Some sid \<Rightarrow>
                          (TransportHandles a, onsessioninitialized (sdk_set_sessionId st1 a sid) a sid))
             else (StatusJson 400
                     \<lparr>jsonrpc = ''2.0'', error_code = - 32000,
                      error_message = ''Bad Request: invalid MCP handshake'', id_is_null = True\<rparr>,
                   st))"

text \<open>
  The legacy routes. \<^verbatim>\<open>app.get("/sse")\<close> constructs an \<^verbatim>\<open>SSEServerTransport\<close>, whose
  constructor draws its \<^verbatim>\<open>sessionId\<close> from \<^verbatim>\<open>randomUUID()\<close>, and registers it; the
  response's \<^verbatim>\<open>close\<close> event deletes the entry; \<^verbatim>\<open>app.post("/messages")\<close> looks the
  transport up.
\<close>

definition handle_sse :: "env \<Rightarrow> string \<Rightarrow> serverState \<Rightarrow> serverState" where
  "handle_sse e sid st =
     (let a = length (heap st);
          transport = \<lparr>kind = SSE, sessionId = Some sid, boundServer = buildMcpServer e\<rparr>
      in st\<lparr>heap := heap st @ [transport], sseTransports := (sseTransports st)(sid \<mapsto> a)\<rparr>)"

definition sse_onclose :: "serverState \<Rightarrow> nat \<Rightarrow> serverState" where
  "sse_onclose st a =
     (if a < length (heap st)
      then (case sessionId (heap st ! a) of
              None \<Rightarrow> st
            | Some sid \<Rightarrow> st\<lparr>sseTransports := (sseTransports st)(sid := None)\<rparr>)
      else st)"

definition handle_messages :: "serverState \<Rightarrow> string \<Rightarrow> httpResponse" where
  "handle_messages st sid =
     (case js_get (sseTransports st) sid of
        Undefined \<Rightarrow> StatusText 400 ''Unknown or expired sessionId''
      | ObjectRef a \<Rightarrow> TransportHandles a
      | PrototypeMember k \<Rightarrow> Thrown (Error ''transport.handlePostMessage is not a function''))"

text \<open>
  The server as a transition system. An event is a request or the closing of a transport
  that a request created; identifiers handed out by \<^verbatim>\<open>randomUUID()\<close> are UUIDs, and a
  close handler runs for a transport of its own kind.
\<close>

datatype event =
    McpRequest env "string option" mcpRequest
  | StreamableClose nat
  | SseOpen env string
  | SseClose nat
  | PostMessage string

fun step :: "serverState \<Rightarrow> event \<Rightarrow> serverState" where
  "step st (McpRequest e sdkInit req) = snd (handle_mcp e sdkInit st req)"
| "step st (StreamableClose a) = streamable_onclose st a"
| "step st (SseOpen e sid) = handle_sse e sid st"
| "step st (SseClose a) = sse_onclose st a"
| "step st (PostMessage sid) = st"

fun event_ok :: "serverState \<Rightarrow> event \<Rightarrow> bool" where
  "event_ok st (McpRequest e sdkInit req) = (case sdkInit of None \<Rightarrow> True | Some sid \<Rightarrow> isUUID sid)"
| "event_ok st (StreamableClose a) = (a < length (heap st) \<and> kind (heap st ! a) = StreamableHTTP)"
| "event_ok st (SseOpen e sid) = isUUID sid"
| "event_ok st (SseClose a) = (a < length (heap st) \<and> kind (heap st ! a) = SSE)"
| "event_ok st (PostMessage sid) = True"

inductive reachable :: "serverState \<Rightarrow> bool" where
  reachable_init: "reachable initState"
| reachable_step: "reachable st \<Longrightarrow> event_ok st ev \<Longrightarrow> reachable (step st ev)"

text \<open>
  Key integrity of the two registries: every key of a registry leads to a transport in
  the store whose own \<^verbatim>\<open>sessionId\<close> is that key.
\<close>

definition key_integrity :: "serverState \<Rightarrow> bool" where
  "key_integrity st =
     ((\<forall>k a. streamableTransports st k = Some a \<longrightarrow>
               a < length (heap st) \<and> sessionId (heap st ! a) = Some k)
      \<and> (\<forall>k a. sseTransports st k = Some a \<longrightarrow>
               a < length (heap st) \<and> sessionId (heap st ! a) = Some k))"

section \<open>A concrete platform\<close>

text \<open>
  A small zone table to run the model on: Tokyo, Kathmandu and Paris (winter time) at
  fixed offsets, New York with its change from UTC-5 to UTC-4 at 2024-03-10T07:00:00Z,
  and \<^verbatim>\<open>"UTC"\<close>, which luxon resolves to the fixed-offset zone 0. The clock of
  \<open>demoEnv\<close> reads 2023-11-14T22:13:20.123Z; \<open>dstEnv\<close> is the same platform at
  2024-03-10T12:00:00Z, the day New York skips the hour from 02:00 to 03:00;
  \<open>tokyoHostEnv\<close> is the same platform with the system zone set to Tokyo.
\<close>

definition demoOffsets :: "string \<Rightarrow> int \<Rightarrow> int" where
  "demoOffsets name t =
     (if name = ''Asia/Tokyo'' then 540
      else if name = ''Asia/Kathmandu'' then 345
      else if name = ''Europe/Paris'' then 60
      else if name = ''America/New_York'' then (if t < 1710054000000 then - 300 else - 240)
      else 0)"

definition demoValidZone :: "string \<Rightarrow> bool" where
  "demoValidZone z =
     (z \<in> set [''UTC'', ''Asia/Tokyo'', ''Asia/Kathmandu'', ''Europe/Paris'', ''America/New_York''])"

definition demoResolveZone :: "string \<Rightarrow> zone" where
  "demoResolveZone z = (if z = ''UTC'' then FixedOffsetZone 0 else IANAZone z)"

definition demoSystemOffset :: "int \<Rightarrow> int" where
  "demoSystemOffset t = 60"

definition demoEnv :: env where
  "demoEnv =
     \<lparr>clock = 1700000000123, intlValidZone = demoValidZone, resolveZone = demoResolveZone,
      ianaOffset = demoOffsets, systemOffset = demoSystemOffset,
      systemZoneName = ''Europe/Paris''\<rparr>"

definition dstEnv :: env where
  "dstEnv = demoEnv\<lparr>clock := 1710072000000\<rparr>"

definition tokyoHostEnv :: env where
  "tokyoHostEnv = demoEnv\<lparr>systemZoneName := ''Asia/Tokyo''\<rparr>"

definition uuid1 :: string where
  "uuid1 = ''123e4567-e89b-42d3-a456-426614174000''"

definition uuid2 :: string where
  "uuid2 = ''9b2f6c1e-0d4a-4f7b-8c3e-5a1d2e3f4a5b''"

text \<open>Two legacy sessions opened one after the other, the system zone changed in between.\<close>

definition twoSessions :: serverState where
  "twoSessions = step (step initState (SseOpen demoEnv uuid1)) (SseOpen tokyoHostEnv uuid2)"

section \<open>Notions of the specification\<close>

text \<open>
  The strict time format as the specification words it: two-digit hour 00 to 23, a single
  colon, two-digit minute 00 to 59, nothing else.
\<close>

fun strict_HHMM :: "string \<Rightarrow> bool" where
  "strict_HHMM [a, b, c, d, f] =
     (isDigit a \<and> isDigit b \<and> c = CHR '':'' \<and> isDigit d \<and> isDigit f
      \<and> digitVal a * 10 + digitVal b \<le> 23 \<and> digitVal d * 10 + digitVal f \<le> 59)"
| "strict_HHMM _ = False"

text \<open>
  The wall-clock time of a \<^verbatim>\<open>DateTime\<close>, the \<^verbatim>\<open>HH:MM\<close> that \<open>toISO\<close> prints after
  the \<^verbatim>\<open>T\<close>; it is the string a caller feeds back to convert the other way.
\<close>

definition wallClock :: "dateTime \<Rightarrow> string" where
  "wallClock dt = padStart (dt_hour dt) 2 @ '':'' @ padStart (dt_minute dt) 2"

text \<open>
  The wall-clock time a caller reads off a returned \<open>datetime\<close> string: the five
  characters \<^verbatim>\<open>HH:MM\<close> that follow the \<^verbatim>\<open>T\<close>.
\<close>

definition isoWallClock :: "string \<Rightarrow> string" where
  "isoWallClock s = take 5 (tl (dropWhile (\<lambda>c. c \<noteq> CHR ''T'') s))"

text \<open>
  A zone whose UTC offset does not change within one day of the clock's instant: no
  daylight-saving transition yesterday, today or tomorrow.
\<close>

definition offsets_stable :: "env \<Rightarrow> zone \<Rightarrow> bool" where
  "offsets_stable e z =
     (\<forall>t. \<bar>t - clock e\<bar> < 86400000 \<longrightarrow> zoneOffset e z t = zoneOffset e z (clock e))"

section \<open>Digits and the rendering of the time difference\<close>

lemma digit_cases:
  "n mod 10 = 0 \<or> n mod 10 = 1 \<or> n mod 10 = 2 \<or> n mod 10 = 3 \<or> n mod 10 = 4 \<or> n mod 10 = 5
   \<or> n mod 10 = 6 \<or> n mod 10 = 7 \<or> n mod 10 = 8 \<or> n mod 10 = (9::nat)"
  by arith

lemma isDigit_digit: "isDigit (digit n)"
  using digit_cases [of n] by (auto simp: isDigit_def digit_def)

lemma digit_eq_zero: "digit n = CHR ''0'' \<longleftrightarrow> n mod 10 = 0"
  using digit_cases [of n] by (auto simp: digit_def)

lemma digitVal_digit: "digitVal (digit n) = int (n mod 10)"
  using digit_cases [of n] by (auto simp: digit_def digitVal_def)

lemma digit_ne_dot: "digit n \<noteq> CHR ''.''"
  using digit_cases [of n] by (auto simp: digit_def)

lemma show_nat_two_digits:
  assumes "n < 100"
  shows "padStart0 2 (show_nat n) = [digit (n div 10), digit (n mod 10)]"
proof (cases "n < 10")
  case True
  then show ?thesis by (simp add: show_nat.simps [of n] padStart0_def digit_def)
next
  case False
  with assms have "n div 10 < 10" by simp
  with False show ?thesis
    by (simp add: show_nat.simps [of n] show_nat.simps [of "n div 10"] padStart0_def)
qed

lemma replace_dot00_frac:
  "replace_dot00 (xs @ [CHR ''.'', a, b]) =
     (if a = CHR ''0'' \<and> b = CHR ''0'' then xs else xs @ [CHR ''.'', a, b])"
  by (simp add: replace_dot00_def endsWith_def)

lemma replace_trailing0_frac:
  "replace_trailing0 (xs @ [CHR ''.'', a, b]) =
     (if isDigit a \<and> b = CHR ''0'' then xs @ [CHR ''.'', a] else xs @ [CHR ''.'', a, b])"
  by (simp add: replace_trailing0_def nth_append Let_def)

lemma hundredths_not_whole:
  assumes "d mod 60 \<noteq> (0::int)"
  shows "((\<bar>d\<bar> * 100 + 30) div 60) mod 100 \<noteq> 0"
proof -
  define k where "k = \<bar>d\<bar> div 60"
  define r where "r = \<bar>d\<bar> mod 60"
  have a: "\<bar>d\<bar> = 60 * k + r" by (simp add: k_def r_def)
  have "r \<noteq> 0" using assms unfolding r_def by presburger
  moreover have "0 \<le> r" "r < 60" by (simp_all add: r_def)
  ultimately have r: "1 \<le> r" "r \<le> 59" by simp_all
  have "\<bar>d\<bar> * 100 + 30 = 60 * (100 * k) + (100 * r + 30)" by (simp add: a)
  then have "(\<bar>d\<bar> * 100 + 30) div 60 = 100 * k + (100 * r + 30) div 60"
    by (metis div_mult_self2 add.commute zero_neq_numeral)
  moreover have "2 \<le> (100 * r + 30) div 60" "(100 * r + 30) div 60 \<le> 98"
    using r by simp_all
  ultimately show ?thesis by simp
qed


lemma frac_render_aux:
  fixes x y :: nat
  assumes "x < 10" "y < 10" "\<not> (x = 0 \<and> y = 0)"
  shows "replace_trailing0 (replace_dot00 (P @ [CHR ''.'', digit x, digit y])) =
         P @ (if y = 0 then [CHR ''.'', digit x] else [CHR ''.'', digit x, digit y])"
  using assms
  by (cases "y = 0") (auto simp add: replace_dot00_frac replace_trailing0_frac digit_eq_zero isDigit_digit)

lemma frac_render:
  fixes n :: nat
  assumes "n mod 100 \<noteq> 0"
  shows "replace_trailing0 (replace_dot00
           (sg @ show_nat (n div 100) @ ''.'' @ padStart0 2 (show_nat (n mod 100)))) =
         sg @ show_nat (n div 100)
           @ (if n mod 10 = 0 then [CHR ''.'', digit (n mod 100 div 10)]
              else [CHR ''.'', digit (n mod 100 div 10), digit (n mod 10)])"
proof -
  define x where "x = n mod 100 div 10"
  define y where "y = n mod 10"
  have lt: "n mod 100 < 100" by simp
  have y: "n mod 100 mod 10 = y" by (simp add: y_def mod_mod_cancel)
  have split: "n mod 100 = 10 * x + y"
    unfolding x_def y [symmetric] by simp
  have bounds: "x < 10" "y < 10" using lt by (simp_all add: x_def y_def)
  have xy: "\<not> (x = 0 \<and> y = 0)" using split assms by auto
  have pad: "padStart0 2 (show_nat (n mod 100)) = [digit x, digit y]"
    using show_nat_two_digits [OF lt] by (simp add: x_def y)
  have str: "sg @ show_nat (n div 100) @ ''.'' @ [digit x, digit y]
               = (sg @ show_nat (n div 100)) @ [CHR ''.'', digit x, digit y]" by simp
  show ?thesis
    unfolding pad str frac_render_aux [OF bounds xy] x_def [symmetric] y_def [symmetric]
    by simp
qed

lemma timeDiffStr_integral:
  assumes "d mod 60 = 0"
  shows "timeDiffStr d = (if d \<ge> 0 then ''+'' else ''-'') @ show_nat (nat (\<bar>d\<bar> div 60)) @ ''h''"
proof -
  from assms obtain q where q: "d = 60 * q" by (auto simp: mod_eq_0_iff_dvd)
  show ?thesis
  proof (cases "d \<ge> 0")
    case True
    with q show ?thesis
      by (simp add: timeDiffStr_def Number_isInteger_div60_def show_int_def)
  next
    case False
    with q have neg: "q < 0" by simp
    then have "\<bar>d\<bar> = 60 * (- q)" using q by simp
    then have "\<bar>d\<bar> div 60 = - q" by simp
    moreover have "d div 60 = q" using q by simp
    ultimately show ?thesis using False neg assms
      by (simp add: timeDiffStr_def Number_isInteger_div60_def show_int_def)
  qed
qed

lemma timeDiffStr_fractional:
  assumes "d mod 60 \<noteq> 0"
  shows "timeDiffStr d =
           (if d \<ge> 0 then ''+'' else ''-'') @ show_nat (nat ((\<bar>d\<bar> * 100 + 30) div 60) div 100)
           @ (if nat ((\<bar>d\<bar> * 100 + 30) div 60) mod 10 = 0
              then [CHR ''.'', digit (nat ((\<bar>d\<bar> * 100 + 30) div 60) mod 100 div 10)]
              else [CHR ''.'', digit (nat ((\<bar>d\<bar> * 100 + 30) div 60) mod 100 div 10),
                    digit (nat ((\<bar>d\<bar> * 100 + 30) div 60) mod 10)])
           @ ''h''"
proof -
  define n where "n = nat ((\<bar>d\<bar> * 100 + 30) div 60)"
  have "0 \<le> (\<bar>d\<bar> * 100 + 30) div 60" by simp
  then have "int (n mod 100) = ((\<bar>d\<bar> * 100 + 30) div 60) mod 100"
    by (simp add: n_def zmod_int)
  with hundredths_not_whole [OF assms] have nz: "n mod 100 \<noteq> 0" by auto
  have tf: "toFixed2_div60 d =
              (if d < 0 then ''-'' else []) @ show_nat (n div 100) @ ''.''
                @ padStart0 2 (show_nat (n mod 100))"
    by (simp only: toFixed2_div60_def Let_def n_def)
  have "timeDiffStr d = (if d \<ge> 0 then ''+'' else [])
          @ replace_trailing0 (replace_dot00 (toFixed2_div60 d)) @ ''h''"
    using assms by (simp only: timeDiffStr_def Number_isInteger_div60_def if_False)
  also have "\<dots> = (if d \<ge> 0 then ''+'' else [])
          @ ((if d < 0 then ''-'' else []) @ show_nat (n div 100)
             @ (if n mod 10 = 0 then [CHR ''.'', digit (n mod 100 div 10)]
                else [CHR ''.'', digit (n mod 100 div 10), digit (n mod 10)])) @ ''h''"
    by (simp only: tf frac_render [OF nz])
  also have "\<dots> = (if d \<ge> 0 then ''+'' else ''-'') @ show_nat (n div 100)
             @ (if n mod 10 = 0 then [CHR ''.'', digit (n mod 100 div 10)]
                else [CHR ''.'', digit (n mod 100 div 10), digit (n mod 10)]) @ ''h''"
    by (cases "d \<ge> 0") simp_all
  finally show ?thesis unfolding n_def .
qed

lemma timeDiffStr_eq_spec: "timeDiffStr d = spec_time_difference d"
proof (cases "d mod 60 = 0")
  case True
  show ?thesis
    unfolding timeDiffStr_integral [OF True] spec_time_difference_def Let_def
    using True by simp
next
  case False
  define n where "n = nat ((\<bar>d\<bar> * 100 + 30) div 60)"
  have "0 \<le> (\<bar>d\<bar> * 100 + 30) div 60" by simp
  then have "int (n mod 100) = ((\<bar>d\<bar> * 100 + 30) div 60) mod 100"
    by (simp add: n_def zmod_int)
  with hundredths_not_whole [OF False] have nz: "n mod 100 \<noteq> 0" by auto
  show ?thesis
    unfolding timeDiffStr_fractional [OF False] spec_time_difference_def Let_def
    unfolding n_def [symmetric]
    using False nz by (cases "n mod 10 = 0") simp_all
qed

lemma timeDiffStr_examples:
  "timeDiffStr 0 = ''+0h''" "timeDiffStr 480 = ''+8h''" "timeDiffStr (- 300) = ''-5h''"
  "timeDiffStr 345 = ''+5.75h''"
  by (simp_all add: timeDiffStr_def Number_isInteger_div60_def toFixed2_div60_def replace_dot00_def
      replace_trailing0_def endsWith_def padStart0_def show_nat.simps digit_def isDigit_def
      show_int_def Let_def)

section \<open>Zones and offsets of the two DateTime values of convertTime\<close>

lemmas demo_eval =
  demoEnv_def dstEnv_def tokyoHostEnv_def demoOffsets_def demoValidZone_def demoResolveZone_def
  demoSystemOffset_def

lemma zone_equals_iff: "zone_equals a b \<longleftrightarrow> a = b"
  by (cases a; cases b) auto

lemma setZone_fields:
  assumes "offs dt = zoneOffset e (zone dt) (ts dt)"
  shows "setZone e dt name =
           \<lparr>ts = ts dt, zone = resolveZone e name, offs = zoneOffset e (resolveZone e name) (ts dt)\<rparr>"
  using assms by (cases dt) (auto simp: setZone_def Let_def zone_equals_iff)

lemma set_time_fields:
  assumes "offs dt = zoneOffset e (zone dt) (ts dt)"
  shows "zone (set_time e dt h m) = zone dt"
    and "offs (set_time e dt h m) = zoneOffset e (zone dt) (ts (set_time e dt h m))"
  using assms by (simp_all add: set_time_def Let_def)

lemma now_in_zone:
  "setZone e (DateTime_now e) name =
     \<lparr>ts = clock e, zone = resolveZone e name, offs = zoneOffset e (resolveZone e name) (clock e)\<rparr>"
  by (simp add: setZone_fields DateTime_now_def)

lemma convertTime_dts_Inr:
  assumes "convertTime_dts e sourceTz timeStr targetTz = Inr (sourceDt, targetDt)"
  shows "ts targetDt = ts sourceDt"
    and "zone sourceDt = resolveZone e sourceTz"
    and "zone targetDt = resolveZone e targetTz"
    and "offs sourceDt = zoneOffset e (resolveZone e sourceTz) (ts sourceDt)"
    and "offs targetDt = zoneOffset e (resolveZone e targetTz) (ts sourceDt)"
proof -
  from assms obtain p where
    s: "sourceDt = set_time e (setZone e (DateTime_now e) sourceTz) (dt_hour p) (dt_minute p)"
    and t: "targetDt = setZone e sourceDt targetTz"
    by (auto simp: convertTime_dts_def Let_def split: if_splits option.splits)
  have c0: "offs (setZone e (DateTime_now e) sourceTz)
              = zoneOffset e (zone (setZone e (DateTime_now e) sourceTz))
                  (ts (setZone e (DateTime_now e) sourceTz))"
    by (simp add: now_in_zone)
  have z: "zone sourceDt = resolveZone e sourceTz"
    unfolding s set_time_fields(1) [OF c0] by (simp add: now_in_zone)
  have c: "offs sourceDt = zoneOffset e (zone sourceDt) (ts sourceDt)"
    unfolding s using set_time_fields [OF c0] by simp
  show "zone sourceDt = resolveZone e sourceTz" by (rule z)
  show "offs sourceDt = zoneOffset e (resolveZone e sourceTz) (ts sourceDt)"
    using c z by simp
  show "ts targetDt = ts sourceDt" "zone targetDt = resolveZone e targetTz"
    "offs targetDt = zoneOffset e (resolveZone e targetTz) (ts sourceDt)"
    unfolding t setZone_fields [OF c] by simp_all
qed

text \<open>
  Claim C2. Whenever \<open>convertTime\<close> succeeds, both zones are valid, the two
  \<^verbatim>\<open>DateTime\<close> values denote one instant, and \<open>time_difference\<close> is the target zone's
  UTC offset minus the source zone's UTC offset at that instant, in minutes, rendered as
  the specification words it (\<open>spec_time_difference\<close>): hours, sign-prefixed, integral
  values without a decimal point, fractional values rounded to two decimals with a
  trailing zero stripped. The code's rendering of 0, 480, -300 and 345 minutes is
  \<open>+0h\<close>, \<open>+8h\<close>, \<open>-5h\<close> and \<open>+5.75h\<close>.
\<close>

theorem convertTime_time_difference:
  assumes "convertTime e sourceTz timeStr targetTz = Inr r"
  shows "(\<exists>sourceDt targetDt.
            convertTime_dts e sourceTz timeStr targetTz = Inr (sourceDt, targetDt)
            \<and> isValidTimezone e sourceTz \<and> isValidTimezone e targetTz
            \<and> ts targetDt = ts sourceDt
            \<and> time_difference r =
                spec_time_difference
                  (zoneOffset e (resolveZone e targetTz) (ts sourceDt)
                   - zoneOffset e (resolveZone e sourceTz) (ts sourceDt)))
         \<and> timeDiffStr 0 = ''+0h'' \<and> timeDiffStr 480 = ''+8h''
         \<and> timeDiffStr (- 300) = ''-5h'' \<and> timeDiffStr 345 = ''+5.75h''"
proof -
  from assms obtain sourceDt targetDt where
    d: "convertTime_dts e sourceTz timeStr targetTz = Inr (sourceDt, targetDt)"
    and r: "time_difference r = timeDiffStr (dt_offset targetDt - dt_offset sourceDt)"
    by (auto simp: convertTime_def Let_def split: sum.splits)
  from d have v: "isValidTimezone e sourceTz" "isValidTimezone e targetTz"
    by (auto simp: convertTime_dts_def split: if_splits)
  note f = convertTime_dts_Inr [OF d]
  have "time_difference r =
          spec_time_difference
            (zoneOffset e (resolveZone e targetTz) (ts sourceDt)
             - zoneOffset e (resolveZone e sourceTz) (ts sourceDt))"
    using r f(4,5) by (simp add: dt_offset_def timeDiffStr_eq_spec)
  with d v f(1) show ?thesis
    using timeDiffStr_examples by blast
qed

theorem convertTime_time_difference_witness:
  "convertTime demoEnv ''UTC'' ''12:00'' ''Asia/Kathmandu''
     = Inr \<lparr>source = \<lparr>timezone = ''UTC'', datetime = ''2023-11-14T12:00:00Z''\<rparr>,
            target = \<lparr>timezone = ''Asia/Kathmandu'', datetime = ''2023-11-14T17:45:00+05:45''\<rparr>,
            time_difference = ''+5.75h''\<rparr>
   \<and> spec_time_difference
         (zoneOffset demoEnv (resolveZone demoEnv ''Asia/Kathmandu'') 1699963200000
          - zoneOffset demoEnv (resolveZone demoEnv ''UTC'') 1699963200000) = ''+5.75h''"
proof -
  have h: "convertTime demoEnv ''UTC'' ''12:00'' ''Asia/Kathmandu''
     = Inr \<lparr>source = \<lparr>timezone = ''UTC'', datetime = ''2023-11-14T12:00:00Z''\<rparr>,
            target = \<lparr>timezone = ''Asia/Kathmandu'', datetime = ''2023-11-14T17:45:00+05:45''\<rparr>,
            time_difference = ''+5.75h''\<rparr>"
    by code_simp
  have d: "convertTime_dts demoEnv ''UTC'' ''12:00'' ''Asia/Kathmandu''
     = Inr (\<lparr>ts = 1699963200000, zone = FixedOffsetZone 0, offs = 0\<rparr>,
            \<lparr>ts = 1699963200000, zone = IANAZone ''Asia/Kathmandu'', offs = 345\<rparr>)"
    by code_simp
  from convertTime_time_difference [OF h] d h show ?thesis by simp
qed

text \<open>
  Claim C7. \<open>convertTime\<close> checks the source zone before the target zone, and both
  before it looks at the time string: with an invalid source zone it fails with the
  source-tagged error whatever the target zone and the time string are, and with a valid
  source and an invalid target zone it fails with the target-tagged error whatever the
  time string is.
\<close>

theorem convertTime_zone_check_order:
  "(\<not> isValidTimezone e sourceTz \<longrightarrow>
      convertTime e sourceTz timeStr targetTz
        = Inl (Error (''Invalid source timezone: '' @ sourceTz)))
   \<and> (isValidTimezone e sourceTz \<and> \<not> isValidTimezone e targetTz \<longrightarrow>
      convertTime e sourceTz timeStr targetTz
        = Inl (Error (''Invalid target timezone: '' @ targetTz)))"
  by (simp add: convertTime_def convertTime_dts_def)

theorem convertTime_zone_check_order_witness:
  "\<not> isValidTimezone demoEnv ''Pluto/Sputnik_Planitia''
   \<and> isValidTimezone demoEnv ''Europe/Paris''
   \<and> convertTime demoEnv ''Pluto/Sputnik_Planitia'' ''lunchtime'' ''Jupiter/Great_Red_Spot''
       = Inl (Error ''Invalid source timezone: Pluto/Sputnik_Planitia'')
   \<and> convertTime demoEnv ''Europe/Paris'' ''lunchtime'' ''Jupiter/Great_Red_Spot''
       = Inl (Error ''Invalid target timezone: Jupiter/Great_Red_Spot'')"
proof -
  have a: "\<not> isValidTimezone demoEnv ''Pluto/Sputnik_Planitia''"
    and b: "isValidTimezone demoEnv ''Europe/Paris''"
    and c: "\<not> isValidTimezone demoEnv ''Jupiter/Great_Red_Spot''"
    by (simp_all add: isValidTimezone_def demo_eval)
  from convertTime_zone_check_order
         [of demoEnv "''Pluto/Sputnik_Planitia''" "''lunchtime''" "''Jupiter/Great_Red_Spot''"]
       convertTime_zone_check_order
         [of demoEnv "''Europe/Paris''" "''lunchtime''" "''Jupiter/Great_Red_Spot''"]
       a b c
  show ?thesis by simp
qed

section \<open>The time string accepted by convertTime\<close>

lemma two_digit_value:
  assumes "isDigit a" "isDigit b"
  shows "0 \<le> digitVal a * 10 + digitVal b"
    and "digitVal a * 10 + digitVal b = 24 \<longleftrightarrow> a = CHR ''2'' \<and> b = CHR ''4''"
    and "digitVal a * 10 + digitVal b = 0 \<longleftrightarrow> a = CHR ''0'' \<and> b = CHR ''0''"
  using assms by (auto simp: isDigit_def digitVal_def)

lemma fromFormat_HHmm_accepts:
  "fromFormat_HHmm e timeStr \<noteq> None \<longleftrightarrow> strict_HHMM timeStr \<or> timeStr = ''24:00''"
proof (cases timeStr rule: match_HHmm.cases)
  case (1 a b c d f)
  show ?thesis
  proof (cases "isDigit a \<and> isDigit b \<and> c = CHR '':'' \<and> isDigit d \<and> isDigit f")
    case True
    then have dg: "isDigit a" "isDigit b" "isDigit d" "isDigit f" and c: "c = CHR '':''" by simp_all
    note h = two_digit_value [OF dg(1,2)]
    note m = two_digit_value [OF dg(3,4)]
    show ?thesis
      using 1 dg c h m
      by (auto simp: fromFormat_HHmm_def hasInvalidTimeData_def Let_def split: prod.splits)
  next
    case False
    with 1 show ?thesis by (auto simp: fromFormat_HHmm_def isDigit_def)
  qed
qed (auto simp: fromFormat_HHmm_def)

text \<open>
  Claim C3, as the code has it. With valid zones \<open>convertTime\<close> accepts every string
  of the strict \<^verbatim>\<open>HH:MM\<close> shape and also the string \<^verbatim>\<open>24:00\<close>, which luxon's
  \<^verbatim>\<open>hasInvalidTimeData\<close> lets through; every other string fails with the error
  whose message names the expected pattern, \<^verbatim>\<open>HH:MM [24-hour format]\<close>.
\<close>

theorem convertTime_time_format:
  assumes "isValidTimezone e sourceTz" "isValidTimezone e targetTz"
  shows "(strict_HHMM timeStr \<or> timeStr = ''24:00''
            \<longrightarrow> (\<exists>r. convertTime e sourceTz timeStr targetTz = Inr r))
       \<and> (\<not> (strict_HHMM timeStr \<or> timeStr = ''24:00'')
            \<longrightarrow> convertTime e sourceTz timeStr targetTz
                  = Inl (Error ''Invalid time format. Expected HH:MM [24-hour format]''))"
proof (cases "fromFormat_HHmm e timeStr")
  case None
  with fromFormat_HHmm_accepts [of e timeStr] assms show ?thesis
    by (simp add: convertTime_def convertTime_dts_def)
next
  case (Some p)
  with fromFormat_HHmm_accepts [of e timeStr] assms show ?thesis
    by (simp add: convertTime_def convertTime_dts_def Let_def)
qed

theorem convertTime_time_format_witness:
  "isValidTimezone demoEnv ''UTC'' \<and> isValidTimezone demoEnv ''Asia/Tokyo''
   \<and> strict_HHMM ''09:30'' \<and> \<not> strict_HHMM ''25:00'' \<and> \<not> strict_HHMM ''9:30''
   \<and> (\<exists>r. convertTime demoEnv ''UTC'' ''09:30'' ''Asia/Tokyo'' = Inr r)
   \<and> convertTime demoEnv ''UTC'' ''25:00'' ''Asia/Tokyo''
       = Inl (Error ''Invalid time format. Expected HH:MM [24-hour format]'')
   \<and> convertTime demoEnv ''UTC'' ''9:30'' ''Asia/Tokyo''
       = Inl (Error ''Invalid time format. Expected HH:MM [24-hour format]'')"
proof -
  have v: "isValidTimezone demoEnv ''UTC''" "isValidTimezone demoEnv ''Asia/Tokyo''"
    by (simp_all add: isValidTimezone_def demoEnv_def demoValidZone_def)
  have s: "strict_HHMM ''09:30''" "\<not> strict_HHMM ''25:00''" "\<not> strict_HHMM ''9:30''"
    by (simp_all add: isDigit_def digitVal_def)
  from convertTime_time_format [OF v, of "''09:30''"]
       convertTime_time_format [OF v, of "''25:00''"]
       convertTime_time_format [OF v, of "''9:30''"] v s
  show ?thesis by simp
qed

text \<open>
  The string \<^verbatim>\<open>24:00\<close> is not of the strict shape (its hour is not in 00 to 23), and
  \<open>convertTime\<close> accepts it.
\<close>

theorem convertTime_accepts_24_00:
  "\<not> strict_HHMM ''24:00'' \<and> isValidTimezone demoEnv ''UTC''
   \<and> convertTime demoEnv ''UTC'' ''24:00'' ''UTC''
       = Inr \<lparr>source = \<lparr>timezone = ''UTC'', datetime = ''2023-11-14T00:00:00Z''\<rparr>,
              target = \<lparr>timezone = ''UTC'', datetime = ''2023-11-14T00:00:00Z''\<rparr>,
              time_difference = ''+0h''\<rparr>"
proof -
  have "\<not> strict_HHMM ''24:00''" by (simp add: isDigit_def digitVal_def)
  moreover have "isValidTimezone demoEnv ''UTC''"
    by (simp add: isValidTimezone_def demoEnv_def demoValidZone_def)
  moreover have "convertTime demoEnv ''UTC'' ''24:00'' ''UTC''
       = Inr \<lparr>source = \<lparr>timezone = ''UTC'', datetime = ''2023-11-14T00:00:00Z''\<rparr>,
              target = \<lparr>timezone = ''UTC'', datetime = ''2023-11-14T00:00:00Z''\<rparr>,
              time_difference = ''+0h''\<rparr>"
    by code_simp
  ultimately show ?thesis by simp
qed

text \<open>
  Claim C5 says that the \<open>datetime\<close> of \<open>getCurrentTime\<close> has second-level precision
  and no fractional seconds whatever the resolution of the clock. The code passes
  \<^verbatim>\<open>suppressMilliseconds: true\<close>, which omits the milliseconds only when they are zero:
  with the clock at 2023-11-14T22:13:20.123Z the result for Tokyo carries the fraction
  \<^verbatim>\<open>.123\<close>. The lemma \<open>getCurrentTime_has_fraction\<close> below shows the same for every
  clock reading that is not a whole second.
\<close>

theorem getCurrentTime_fractional_seconds:
  "getCurrentTime demoEnv ''Asia/Tokyo''
     = Inr \<lparr>timezone = ''Asia/Tokyo'', datetime = ''2023-11-15T07:13:20.123+09:00''\<rparr>"
  by code_simp

section \<open>The tool handlers and the streamable route\<close>

lemma getCurrentTime_fails_iff:
  "(\<exists>err. getCurrentTime e z = Inl err) \<longleftrightarrow> \<not> isValidTimezone e z"
  by (simp add: getCurrentTime_def Let_def)

lemma getCurrentTime_timezone: "getCurrentTime e z = Inr r \<Longrightarrow> timezone r = z"
  by (auto simp: getCurrentTime_def Let_def split: if_splits)

lemma millisecond_of_local: "millisecond (tsToObj t off) = t mod 1000"
proof -
  have "(t + off * 60 * 1000) mod 1000 = t mod 1000"
    by (metis mod_mult_self2 mult.assoc mult.commute)
  then show ?thesis by (simp add: tsToObj_def Let_def)
qed

lemma toISO_has_fraction:
  assumes "ts dt mod 1000 \<noteq> 0"
  shows "CHR ''.'' \<in> set (toISO dt)"
  using assms by (simp add: toISO_def toISOTime_def Let_def millisecond_of_local)

lemma getCurrentTime_has_fraction:
  assumes "getCurrentTime e z = Inr r" "clock e mod 1000 \<noteq> 0"
  shows "CHR ''.'' \<in> set (datetime r)"
proof -
  from assms(1) have r: "datetime r = toISO (setZone e (DateTime_now e) z)"
    by (auto simp: getCurrentTime_def Let_def split: if_splits)
  have "ts (setZone e (DateTime_now e) z) = clock e"
    by (simp add: setZone_def Let_def DateTime_now_def)
  with assms(2) show ?thesis unfolding r by (simp add: toISO_has_fraction)
qed

lemma get_current_time_handler_returns:
  "\<exists>res. get_current_time_handler srv e timezone_arg = Inr res"
  by (simp add: get_current_time_handler_def Let_def split: sum.splits)

lemma convert_time_handler_returns:
  "\<exists>res. convert_time_handler srv e source_timezone time target_timezone = Inr res"
  by (simp add: convert_time_handler_def Let_def split: sum.splits)

lemma startsWith_append: "startsWith (p @ s) p"
  by (induction p) simp_all

lemma str_includes_prefix: "str_includes (p @ s) p"
proof (cases "p @ s")
  case Nil
  then show ?thesis by simp
next
  case (Cons a list)
  have "startsWith (p @ s) p" by (rule startsWith_append)
  then show ?thesis unfolding Cons by simp
qed

lemma str_includes_append_right: "str_includes s sub \<Longrightarrow> str_includes (p @ s) sub"
  by (induction p) auto

lemma str_includes_middle: "str_includes (p @ x @ s) x"
  using str_includes_append_right [OF str_includes_prefix [of x s], of p] by simp

text \<open>
  Claim C1 says that a failed tool call returns a normal result whose text names the
  offending value. The handlers always return (\<open>get_current_time_handler_returns\<close>,
  \<open>convert_time_handler_returns\<close>) and name the offending zone or time string in the
  cases of the lemmas that follow this theorem, but \<^verbatim>\<open>convert_time\<close> picks its message by
  searching the error's text, which contains the zone name: for the invalid target zone
  \<^verbatim>\<open>Mars/Invalid source timezone\<close> the engine reports an invalid target, and the handler's
  text blames the (valid) source zone \<^verbatim>\<open>UTC\<close> and does not name the target.
\<close>

theorem convert_time_handler_misnames_target:
  "convertTime demoEnv ''UTC'' ''12:00'' ''Mars/Invalid source timezone''
     = Inl (Error ''Invalid target timezone: Mars/Invalid source timezone'')
   \<and> convert_time_handler (buildMcpServer demoEnv) demoEnv
         (Some ''UTC'') ''12:00'' (Some ''Mars/Invalid source timezone'')
     = Inr \<lparr>content = [TextContent
              (''Error: Invalid source timezone specified ('' @ [CHR 0x27] @ ''UTC'' @ [CHR 0x27]
               @ ''). Please provide a valid IANA timezone name.'')]\<rparr>
   \<and> \<not> str_includes
          (''Error: Invalid source timezone specified ('' @ [CHR 0x27] @ ''UTC'' @ [CHR 0x27]
           @ ''). Please provide a valid IANA timezone name.'')
          ''Mars/Invalid source timezone''"
  by code_simp

text \<open>
  Claim C8 says that a request to the streamable route that carries no session identifier
  of the registry and is no handshake is answered with status 400 and the fixed error
  body. The route reads \<^verbatim>\<open>streamableTransports[sessionId]\<close>, which also finds the members
  inherited from \<^verbatim>\<open>Object.prototype\<close>: with the header \<^verbatim>\<open>mcp-session-id: constructor\<close>
  and an empty registry the route takes the reuse branch and throws at
  \<^verbatim>\<open>transport.handleRequest\<close>; no 400 is written. The lemma \<open>handle_mcp_rejects\<close>
  shows the 400 for every identifier that is not such a member name.
\<close>

theorem handle_mcp_inherited_key:
  "handle_mcp e sdkInit initState \<lparr>sessionIdHeader = Some ''constructor'', isInitializeBody = False\<rparr>
     = (Thrown (Error ''transport.handleRequest is not a function''), initState)
   \<and> streamableTransports initState ''constructor'' = None"
  by (simp add: handle_mcp_def initState_def js_get_def objectPrototypeKeys_def)

lemma handle_mcp_rejects:
  assumes "case sessionIdHeader req of
             None \<Rightarrow> True
           | Some sid \<Rightarrow> streamableTransports st sid = None \<and> sid \<notin> set objectPrototypeKeys"
    and "\<not> isInitializeBody req"
  shows "handle_mcp e sdkInit st req =
           (StatusJson 400 \<lparr>jsonrpc = ''2.0'', error_code = - 32000,
                            error_message = ''Bad Request: invalid MCP handshake'',
                            id_is_null = True\<rparr>, st)"
  using assms by (auto simp: handle_mcp_def js_get_def Let_def split: option.splits)


lemma get_current_time_handler_names_zone:
  assumes "\<not> isValidTimezone e (js_or timezone_arg (localTz srv))"
  shows "\<exists>txt. get_current_time_handler srv e timezone_arg = Inr \<lparr>content = [TextContent txt]\<rparr>
               \<and> str_includes txt (js_or timezone_arg (localTz srv))"
proof -
  have "str_includes (''Invalid timezone'' @ '': '' @ js_or timezone_arg (localTz srv))
          ''Invalid timezone''"
    by (rule str_includes_prefix)
  then have inc: "str_includes (''Invalid timezone: '' @ js_or timezone_arg (localTz srv))
          ''Invalid timezone''" by simp
  note named = str_includes_middle
    [of "''Error: Invalid timezone specified ('' @ [CHR 0x27]" "js_or timezone_arg (localTz srv)"]
  show ?thesis
    using assms inc named
    by (simp add: get_current_time_handler_def getCurrentTime_def Let_def del: str_includes.simps)
qed

lemma convert_time_handler_names_source:
  assumes "\<not> isValidTimezone e (js_or source_timezone (localTz srv))"
  shows "\<exists>txt. convert_time_handler srv e source_timezone time target_timezone
                 = Inr \<lparr>content = [TextContent txt]\<rparr>
               \<and> str_includes txt (js_or source_timezone (localTz srv))"
proof -
  have "str_includes (''Invalid source timezone'' @ '': '' @ js_or source_timezone (localTz srv))
          ''Invalid source timezone''"
    by (rule str_includes_prefix)
  then have inc: "str_includes (''Invalid source timezone: '' @ js_or source_timezone (localTz srv))
          ''Invalid source timezone''" by simp
  note named = str_includes_middle
    [of "''Error: Invalid source timezone specified ('' @ [CHR 0x27]"
        "js_or source_timezone (localTz srv)"]
  show ?thesis
    using assms inc named
    by (simp add: convert_time_handler_def convertTime_def convertTime_dts_def Let_def
        del: str_includes.simps)
qed

lemma target_message_not_source:
  assumes "\<not> str_includes tz ''Invalid source timezone''"
  shows "\<not> str_includes (''Invalid target timezone: '' @ tz) ''Invalid source timezone''"
  using assms by simp

lemma convert_time_handler_names_target:
  assumes "isValidTimezone e (js_or source_timezone (localTz srv))"
    and "\<not> isValidTimezone e (js_or target_timezone (localTz srv))"
    and "\<not> str_includes (js_or target_timezone (localTz srv)) ''Invalid source timezone''"
  shows "\<exists>txt. convert_time_handler srv e source_timezone time target_timezone
                 = Inr \<lparr>content = [TextContent txt]\<rparr>
               \<and> str_includes txt (js_or target_timezone (localTz srv))"
proof -
  have "str_includes (''Invalid target timezone'' @ '': '' @ js_or target_timezone (localTz srv))
          ''Invalid target timezone''"
    by (rule str_includes_prefix)
  then have inc: "str_includes (''Invalid target timezone: '' @ js_or target_timezone (localTz srv))
          ''Invalid target timezone''" by simp
  note no = target_message_not_source [OF assms(3)]
  note named = str_includes_middle
    [of "''Error: Invalid target timezone specified ('' @ [CHR 0x27]"
        "js_or target_timezone (localTz srv)"]
  show ?thesis
    using assms(1,2) inc no named
    by (simp add: convert_time_handler_def convertTime_def convertTime_dts_def Let_def
        del: str_includes.simps)
qed

lemma time_format_message_kind:
  "\<not> str_includes ''Invalid time format. Expected HH:MM [24-hour format]'' ''Invalid source timezone''"
  "\<not> str_includes ''Invalid time format. Expected HH:MM [24-hour format]'' ''Invalid target timezone''"
  "str_includes ''Invalid time format. Expected HH:MM [24-hour format]'' ''Invalid time format''"
  by simp_all

lemma convert_time_handler_names_time:
  assumes "isValidTimezone e (js_or source_timezone (localTz srv))"
    and "isValidTimezone e (js_or target_timezone (localTz srv))"
    and "fromFormat_HHmm e time = None"
  shows "\<exists>txt. convert_time_handler srv e source_timezone time target_timezone
                 = Inr \<lparr>content = [TextContent txt]\<rparr>
               \<and> str_includes txt time"
  using assms time_format_message_kind
    str_includes_middle [of "''Error: Invalid time format specified ('' @ [CHR 0x27]" time]
  by (simp add: convert_time_handler_def convertTime_def convertTime_dts_def Let_def
      del: str_includes.simps)

section \<open>Key integrity of the transport registries\<close>

lemma key_integrity_init: "key_integrity initState"
  by (simp add: key_integrity_def initState_def)

lemma key_integrityD:
  assumes "key_integrity st"
  shows "streamableTransports st k = Some a \<Longrightarrow> a < length (heap st) \<and> sessionId (heap st ! a) = Some k"
    and "sseTransports st k = Some a \<Longrightarrow> a < length (heap st) \<and> sessionId (heap st ! a) = Some k"
  using assms unfolding key_integrity_def by blast+

lemma key_integrityI:
  assumes "\<And>k a. streamableTransports st k = Some a
             \<Longrightarrow> a < length (heap st) \<and> sessionId (heap st ! a) = Some k"
    and "\<And>k a. sseTransports st k = Some a
             \<Longrightarrow> a < length (heap st) \<and> sessionId (heap st ! a) = Some k"
  shows "key_integrity st"
  using assms unfolding key_integrity_def by blast

lemma key_integrity_alloc:
  assumes "key_integrity st"
  shows "key_integrity (st\<lparr>heap := heap st @ [t]\<rparr>)"
proof (rule key_integrityI)
  fix k a
  assume "streamableTransports (st\<lparr>heap := heap st @ [t]\<rparr>) k = Some a"
  then have "streamableTransports st k = Some a" by simp
  from key_integrityD(1) [OF assms this]
  show "a < length (heap (st\<lparr>heap := heap st @ [t]\<rparr>))
        \<and> sessionId (heap (st\<lparr>heap := heap st @ [t]\<rparr>) ! a) = Some k"
    by (simp add: nth_append)
next
  fix k a
  assume "sseTransports (st\<lparr>heap := heap st @ [t]\<rparr>) k = Some a"
  then have "sseTransports st k = Some a" by simp
  from key_integrityD(2) [OF assms this]
  show "a < length (heap (st\<lparr>heap := heap st @ [t]\<rparr>))
        \<and> sessionId (heap (st\<lparr>heap := heap st @ [t]\<rparr>) ! a) = Some k"
    by (simp add: nth_append)
qed

lemma key_integrity_initialize:
  assumes "key_integrity st" "a < length (heap st)"
    and "\<forall>k. streamableTransports st k \<noteq> Some a" "\<forall>k. sseTransports st k \<noteq> Some a"
  shows "key_integrity (onsessioninitialized (sdk_set_sessionId st a sid) a sid)"
proof (rule key_integrityI)
  fix k b
  assume "streamableTransports (onsessioninitialized (sdk_set_sessionId st a sid) a sid) k = Some b"
  then have kb: "((streamableTransports st)(sid \<mapsto> a)) k = Some b"
    by (simp add: onsessioninitialized_def sdk_set_sessionId_def)
  show "b < length (heap (onsessioninitialized (sdk_set_sessionId st a sid) a sid))
        \<and> sessionId (heap (onsessioninitialized (sdk_set_sessionId st a sid) a sid) ! b) = Some k"
  proof (cases "k = sid")
    case True
    with kb assms(2) show ?thesis
      by (simp add: onsessioninitialized_def sdk_set_sessionId_def)
  next
    case False
    with kb have old: "streamableTransports st k = Some b" by simp
    with assms(3) have "b \<noteq> a" by auto
    with key_integrityD(1) [OF assms(1) old] show ?thesis
      by (simp add: onsessioninitialized_def sdk_set_sessionId_def)
  qed
next
  fix k b
  assume "sseTransports (onsessioninitialized (sdk_set_sessionId st a sid) a sid) k = Some b"
  then have old: "sseTransports st k = Some b"
    by (simp add: onsessioninitialized_def sdk_set_sessionId_def)
  with assms(4) have "b \<noteq> a" by auto
  with key_integrityD(2) [OF assms(1) old]
  show "b < length (heap (onsessioninitialized (sdk_set_sessionId st a sid) a sid))
        \<and> sessionId (heap (onsessioninitialized (sdk_set_sessionId st a sid) a sid) ! b) = Some k"
    by (simp add: onsessioninitialized_def sdk_set_sessionId_def)
qed

lemma key_integrity_handle_mcp:
  assumes "key_integrity st"
  shows "key_integrity (snd (handle_mcp e sdkInit st req))"
proof -
  define t where "t = \<lparr>kind = StreamableHTTP, sessionId = None, boundServer = buildMcpServer e\<rparr>"
  define st1 where "st1 = st\<lparr>heap := heap st @ [t]\<rparr>"
  have k1: "key_integrity st1" unfolding st1_def by (rule key_integrity_alloc [OF assms])
  have fresh: "\<forall>k. streamableTransports st1 k \<noteq> Some (length (heap st))"
    "\<forall>k. sseTransports st1 k \<noteq> Some (length (heap st))"
    using key_integrityD [OF assms] by (auto simp: st1_def)
  have "length (heap st) < length (heap st1)" by (simp add: st1_def)
  from key_integrity_initialize [OF k1 this fresh]
  have k2: "key_integrity (onsessioninitialized (sdk_set_sessionId st1 (length (heap st)) sid)
              (length (heap st)) sid)" for sid .
  show ?thesis
    using assms k1 k2
    by (simp add: handle_mcp_def Let_def flip: t_def st1_def split: jsValue.splits option.splits)
qed

lemma key_integrity_handle_sse:
  assumes "key_integrity st"
  shows "key_integrity (handle_sse e sid st)"
proof (rule key_integrityI)
  fix k b
  assume "streamableTransports (handle_sse e sid st) k = Some b"
  then have "streamableTransports st k = Some b" by (simp add: handle_sse_def Let_def)
  from key_integrityD(1) [OF assms this]
  show "b < length (heap (handle_sse e sid st)) \<and> sessionId (heap (handle_sse e sid st) ! b) = Some k"
    by (simp add: handle_sse_def Let_def nth_append)
next
  fix k b
  assume "sseTransports (handle_sse e sid st) k = Some b"
  then have kb: "((sseTransports st)(sid \<mapsto> length (heap st))) k = Some b"
    by (simp add: handle_sse_def Let_def)
  show "b < length (heap (handle_sse e sid st)) \<and> sessionId (heap (handle_sse e sid st) ! b) = Some k"
  proof (cases "k = sid")
    case True
    with kb show ?thesis by (auto simp: handle_sse_def Let_def nth_append)
  next
    case False
    with kb have "sseTransports st k = Some b" by simp
    from key_integrityD(2) [OF assms this] show ?thesis
      by (simp add: handle_sse_def Let_def nth_append)
  qed
qed

lemma key_integrity_streamable_onclose:
  assumes "key_integrity st"
  shows "key_integrity (streamable_onclose st a)"
proof -
  have "key_integrity (st\<lparr>streamableTransports := (streamableTransports st)(sid := None)\<rparr>)" for sid
    using key_integrityD [OF assms]
    by (simp add: key_integrity_def)
  with assms show ?thesis
    by (simp add: streamable_onclose_def split: option.splits)
qed

lemma key_integrity_sse_onclose:
  assumes "key_integrity st"
  shows "key_integrity (sse_onclose st a)"
proof -
  have "key_integrity (st\<lparr>sseTransports := (sseTransports st)(sid := None)\<rparr>)" for sid
    using key_integrityD [OF assms]
    by (simp add: key_integrity_def)
  with assms show ?thesis
    by (simp add: sse_onclose_def split: option.splits)
qed

lemma key_integrity_step:
  assumes "key_integrity st"
  shows "key_integrity (step st ev)"
  using assms
  by (cases ev)
     (simp_all add: key_integrity_handle_mcp key_integrity_handle_sse
        key_integrity_streamable_onclose key_integrity_sse_onclose)

lemma reachable_key_integrity: "reachable st \<Longrightarrow> key_integrity st"
  by (induction rule: reachable.induct) (simp_all add: key_integrity_init key_integrity_step)

lemma streamable_onclose_removes_own_key:
  assumes "streamableTransports (streamable_onclose st a) k \<noteq> streamableTransports st k"
  shows "a < length (heap st) \<and> sessionId (heap st ! a) = Some k
         \<and> streamableTransports (streamable_onclose st a) k = None"
  using assms by (auto simp: streamable_onclose_def split: option.splits if_splits)

lemma streamable_onclose_idem:
  "streamable_onclose (streamable_onclose st a) a = streamable_onclose st a"
  by (auto simp: streamable_onclose_def split: option.splits)

lemma sse_onclose_removes_own_key:
  assumes "sseTransports (sse_onclose st a) k \<noteq> sseTransports st k"
  shows "a < length (heap st) \<and> sessionId (heap st ! a) = Some k
         \<and> sseTransports (sse_onclose st a) k = None"
  using assms by (auto simp: sse_onclose_def split: option.splits if_splits)

lemma sse_onclose_idem: "sse_onclose (sse_onclose st a) a = sse_onclose st a"
  by (auto simp: sse_onclose_def split: option.splits)

lemma handle_mcp_registers:
  assumes "sessionIdHeader req = None" "isInitializeBody req"
  shows "streamableTransports (snd (handle_mcp e (Some sid) st req)) sid = Some (length (heap st))
         \<and> sessionId (heap (snd (handle_mcp e (Some sid) st req)) ! length (heap st)) = Some sid"
  using assms
  by (simp add: handle_mcp_def Let_def onsessioninitialized_def sdk_set_sessionId_def)

lemma handle_sse_registers:
  "sseTransports (handle_sse e sid st) sid = Some (length (heap st))
   \<and> sessionId (heap (handle_sse e sid st) ! length (heap st)) = Some sid"
  by (simp add: handle_sse_def Let_def)

lemma isUUID_not_inherited:
  assumes "isUUID k"
  shows "k \<notin> set objectPrototypeKeys"
    and "js_get table k = (case table k of Some a \<Rightarrow> ObjectRef a | None \<Rightarrow> Undefined)"
proof -
  from assms have "length k = 36" by (simp add: isUUID_def)
  then show "k \<notin> set objectPrototypeKeys" by (auto simp: objectPrototypeKeys_def)
  then show "js_get table k = (case table k of Some a \<Rightarrow> ObjectRef a | None \<Rightarrow> Undefined)"
    by (simp add: js_get_def split: option.splits)
qed

lemma isUUID_samples: "isUUID uuid1" "isUUID uuid2"
  by (simp_all add: isUUID_def isHexLower_def uuid1_def uuid2_def)

lemma reachable_twoSessions: "reachable twoSessions"
proof -
  have "reachable (step initState (SseOpen demoEnv uuid1))"
    by (rule reachable_step [OF reachable_init]) (simp add: isUUID_samples)
  then show ?thesis
    unfolding twoSessions_def
    by (rule reachable_step) (simp add: isUUID_samples)
qed

lemma twoSessions_eq:
  "twoSessions =
     \<lparr>streamableTransports = Map.empty,
      sseTransports = [uuid1 \<mapsto> 0, uuid2 \<mapsto> 1],
      heap = [\<lparr>kind = SSE, sessionId = Some uuid1, boundServer = \<lparr>localTz = ''Europe/Paris''\<rparr>\<rparr>,
              \<lparr>kind = SSE, sessionId = Some uuid2, boundServer = \<lparr>localTz = ''Asia/Tokyo''\<rparr>\<rparr>]\<rparr>"
  by (simp add: twoSessions_def handle_sse_def initState_def Let_def buildMcpServer_def
      getLocalTimezone_def demoEnv_def tokyoHostEnv_def)

text \<open>
  Claim C10. In every reachable state each key of the streamable and of the legacy
  registry leads to a transport whose own \<^verbatim>\<open>sessionId\<close> is that key. The routes that
  create a session keep the invariant and register the new transport under the identifier
  the transport was given; the close handlers keep it, change no entry but the one under
  the closing transport's own \<^verbatim>\<open>sessionId\<close>, which they remove, and do nothing when run
  a second time.
\<close>

theorem registry_key_integrity:
  assumes "reachable st"
  shows "key_integrity st
       \<and> (\<forall>ev. event_ok st ev \<longrightarrow> key_integrity (step st ev))
       \<and> (\<forall>e sid req. isUUID sid \<and> sessionIdHeader req = None \<and> isInitializeBody req \<longrightarrow>
              streamableTransports (snd (handle_mcp e (Some sid) st req)) sid = Some (length (heap st))
              \<and> sessionId (heap (snd (handle_mcp e (Some sid) st req)) ! length (heap st)) = Some sid)
       \<and> (\<forall>e sid. isUUID sid \<longrightarrow>
              sseTransports (handle_sse e sid st) sid = Some (length (heap st))
              \<and> sessionId (heap (handle_sse e sid st) ! length (heap st)) = Some sid)
       \<and> (\<forall>a. key_integrity (streamable_onclose st a)
              \<and> streamable_onclose (streamable_onclose st a) a = streamable_onclose st a
              \<and> (\<forall>k. streamableTransports (streamable_onclose st a) k \<noteq> streamableTransports st k
                     \<longrightarrow> sessionId (heap st ! a) = Some k
                         \<and> streamableTransports (streamable_onclose st a) k = None))
       \<and> (\<forall>a. key_integrity (sse_onclose st a)
              \<and> sse_onclose (sse_onclose st a) a = sse_onclose st a
              \<and> (\<forall>k. sseTransports (sse_onclose st a) k \<noteq> sseTransports st k
                     \<longrightarrow> sessionId (heap st ! a) = Some k
                         \<and> sseTransports (sse_onclose st a) k = None))"
proof -
  note inv = reachable_key_integrity [OF assms]
  have c1: "\<forall>ev. event_ok st ev \<longrightarrow> key_integrity (step st ev)"
    by (simp add: key_integrity_step [OF inv])
  have c2: "\<forall>e sid req. isUUID sid \<and> sessionIdHeader req = None \<and> isInitializeBody req \<longrightarrow>
              streamableTransports (snd (handle_mcp e (Some sid) st req)) sid = Some (length (heap st))
              \<and> sessionId (heap (snd (handle_mcp e (Some sid) st req)) ! length (heap st)) = Some sid"
    using handle_mcp_registers by blast
  have c3: "\<forall>e sid. isUUID sid \<longrightarrow>
              sseTransports (handle_sse e sid st) sid = Some (length (heap st))
              \<and> sessionId (heap (handle_sse e sid st) ! length (heap st)) = Some sid"
    using handle_sse_registers by blast
  have c4: "\<forall>a. key_integrity (streamable_onclose st a)
              \<and> streamable_onclose (streamable_onclose st a) a = streamable_onclose st a
              \<and> (\<forall>k. streamableTransports (streamable_onclose st a) k \<noteq> streamableTransports st k
                     \<longrightarrow> sessionId (heap st ! a) = Some k
                         \<and> streamableTransports (streamable_onclose st a) k = None)"
    using key_integrity_streamable_onclose [OF inv] streamable_onclose_idem
      streamable_onclose_removes_own_key by blast
  have c5: "\<forall>a. key_integrity (sse_onclose st a)
              \<and> sse_onclose (sse_onclose st a) a = sse_onclose st a
              \<and> (\<forall>k. sseTransports (sse_onclose st a) k \<noteq> sseTransports st k
                     \<longrightarrow> sessionId (heap st ! a) = Some k
                         \<and> sseTransports (sse_onclose st a) k = None)"
    using key_integrity_sse_onclose [OF inv] sse_onclose_idem
      sse_onclose_removes_own_key by blast
  from inv c1 c2 c3 c4 c5 show ?thesis by (intro conjI)
qed

theorem registry_key_integrity_witness:
  "reachable twoSessions \<and> key_integrity twoSessions
   \<and> sseTransports twoSessions uuid2 = Some 1
   \<and> sessionId (heap twoSessions ! 1) = Some uuid2
   \<and> key_integrity (sse_onclose twoSessions 1)
   \<and> sseTransports (sse_onclose twoSessions 1) uuid2 = None
   \<and> sseTransports (sse_onclose twoSessions 1) uuid1 = Some 0
   \<and> sse_onclose (sse_onclose twoSessions 1) 1 = sse_onclose twoSessions 1"
proof -
  note t = registry_key_integrity [OF reachable_twoSessions]
  have "uuid1 \<noteq> uuid2" by (simp add: uuid1_def uuid2_def)
  then have "sseTransports twoSessions uuid2 = Some 1"
    "sessionId (heap twoSessions ! 1) = Some uuid2"
    "sseTransports (sse_onclose twoSessions 1) uuid2 = None"
    "sseTransports (sse_onclose twoSessions 1) uuid1 = Some 0"
    by (simp_all add: twoSessions_eq sse_onclose_def)
  with t reachable_twoSessions show ?thesis by blast
qed

section \<open>The default zone of a session\<close>

lemma zoneOffset_systemZoneName:
  "zoneOffset (e\<lparr>systemZoneName := z\<rparr>) zn t = zoneOffset e zn t"
  by (cases zn) simp_all

lemma fixOffset_systemZoneName:
  "fixOffset (e\<lparr>systemZoneName := z\<rparr>) l off zn = fixOffset e l off zn"
  by (simp add: fixOffset_def Let_def zoneOffset_systemZoneName)

lemma setZone_systemZoneName:
  "setZone (e\<lparr>systemZoneName := z\<rparr>) dt name = setZone e dt name"
  by (simp add: setZone_def Let_def zoneOffset_systemZoneName)

lemma set_time_systemZoneName:
  "set_time (e\<lparr>systemZoneName := z\<rparr>) dt h m = set_time e dt h m"
  by (simp add: set_time_def Let_def objToTS_def fixOffset_systemZoneName zoneOffset_systemZoneName)

lemma DateTime_now_systemZoneName:
  "DateTime_now (e\<lparr>systemZoneName := z\<rparr>) = DateTime_now e"
  by (simp add: DateTime_now_def)

lemma fromFormat_HHmm_systemZoneName:
  "fromFormat_HHmm (e\<lparr>systemZoneName := z\<rparr>) s = fromFormat_HHmm e s"
  by (simp add: fromFormat_HHmm_def Let_def objToTS_def fixOffset_systemZoneName split: option.splits)

lemma isValidTimezone_systemZoneName:
  "isValidTimezone (e\<lparr>systemZoneName := z\<rparr>) tz = isValidTimezone e tz"
  by (simp add: isValidTimezone_def)

lemma getCurrentTime_systemZoneName:
  "getCurrentTime (e\<lparr>systemZoneName := z\<rparr>) tz = getCurrentTime e tz"
  by (simp add: getCurrentTime_def Let_def isValidTimezone_systemZoneName setZone_systemZoneName
      DateTime_now_systemZoneName)

lemma convertTime_dts_systemZoneName:
  "convertTime_dts (e\<lparr>systemZoneName := z\<rparr>) a s b = convertTime_dts e a s b"
  by (simp add: convertTime_dts_def Let_def isValidTimezone_systemZoneName
      setZone_systemZoneName set_time_systemZoneName DateTime_now_systemZoneName
      fromFormat_HHmm_systemZoneName split: option.splits)

lemma convertTime_systemZoneName:
  "convertTime (e\<lparr>systemZoneName := z\<rparr>) a s b = convertTime e a s b"
  by (simp add: convertTime_def convertTime_dts_systemZoneName)

lemma js_or_default: "js_or None d = js_or (Some d) d"
  by simp

lemma step_keeps_boundServer:
  assumes "a < length (heap st)"
  shows "boundServer (heap (step st ev) ! a) = boundServer (heap st ! a)"
proof (cases ev)
  case (McpRequest e sdkInit req)
  with assms show ?thesis
    by (simp add: handle_mcp_def Let_def onsessioninitialized_def sdk_set_sessionId_def nth_append
        split: jsValue.splits option.splits)
next
  case (StreamableClose b)
  then show ?thesis by (simp add: streamable_onclose_def split: option.splits)
next
  case (SseOpen e sid)
  with assms show ?thesis by (simp add: handle_sse_def Let_def nth_append)
next
  case (SseClose b)
  then show ?thesis by (simp add: sse_onclose_def split: option.splits)
next
  case (PostMessage sid)
  then show ?thesis by simp
qed

lemma new_session_boundServer:
  "boundServer (heap (handle_sse e sid st) ! length (heap st)) = buildMcpServer e"
  "sessionIdHeader req = None \<Longrightarrow> isInitializeBody req \<Longrightarrow>
     boundServer (heap (snd (handle_mcp e sdkInit st req)) ! length (heap st)) = buildMcpServer e"
  by (simp_all add: handle_sse_def handle_mcp_def Let_def onsessioninitialized_def
      sdk_set_sessionId_def split: option.splits)

text \<open>
  Claim C4, as the code has it. The default zone is read by \<^verbatim>\<open>buildMcpServer()\<close>, once
  for each session, when the session's server is built, not once at the start of the
  process. The handlers of that server use the value read then for an absent timezone
  argument, whatever the system zone is when the tool is called; a new session binds the
  server built in the environment of its creation; and no request or close changes the
  server bound to an existing transport.
\<close>

theorem default_timezone_per_session:
  "localTz (buildMcpServer e0) = getLocalTimezone e0
   \<and> get_current_time_handler (buildMcpServer e0) (e\<lparr>systemZoneName := z\<rparr>) None
       = get_current_time_handler (buildMcpServer e0) e (Some (getLocalTimezone e0))
   \<and> convert_time_handler (buildMcpServer e0) (e\<lparr>systemZoneName := z\<rparr>) None time None
       = convert_time_handler (buildMcpServer e0) e
           (Some (getLocalTimezone e0)) time (Some (getLocalTimezone e0))
   \<and> boundServer (heap (handle_sse e sid st) ! length (heap st)) = buildMcpServer e
   \<and> (sessionIdHeader req = None \<and> isInitializeBody req \<longrightarrow>
        boundServer (heap (snd (handle_mcp e sdkInit st req)) ! length (heap st)) = buildMcpServer e)
   \<and> (a < length (heap st) \<longrightarrow> boundServer (heap (step st ev) ! a) = boundServer (heap st ! a))"
proof -
  have l: "localTz (buildMcpServer e0) = getLocalTimezone e0"
    by (simp add: buildMcpServer_def)
  have g: "get_current_time_handler (buildMcpServer e0) (e\<lparr>systemZoneName := z\<rparr>) None
       = get_current_time_handler (buildMcpServer e0) e (Some (getLocalTimezone e0))"
    by (simp add: get_current_time_handler_def Let_def getCurrentTime_systemZoneName l)
  have c: "convert_time_handler (buildMcpServer e0) (e\<lparr>systemZoneName := z\<rparr>) None time None
       = convert_time_handler (buildMcpServer e0) e
           (Some (getLocalTimezone e0)) time (Some (getLocalTimezone e0))"
    by (simp add: convert_time_handler_def Let_def convertTime_systemZoneName l)
  from l g c new_session_boundServer step_keeps_boundServer
  show ?thesis by blast
qed

theorem default_timezone_per_session_witness:
  "(0::nat) < length (heap twoSessions)
   \<and> boundServer (heap (step twoSessions (SseClose 0)) ! 0) = \<lparr>localTz = ''Europe/Paris''\<rparr>
   \<and> get_current_time_handler (buildMcpServer demoEnv) tokyoHostEnv None
       = get_current_time_handler (buildMcpServer demoEnv) demoEnv (Some ''Europe/Paris'')"
proof -
  have len: "(0::nat) < length (heap twoSessions)" by (simp add: twoSessions_eq)
  have b: "boundServer (heap twoSessions ! 0) = \<lparr>localTz = ''Europe/Paris''\<rparr>"
    by (simp add: twoSessions_eq)
  have n: "getLocalTimezone demoEnv = ''Europe/Paris''"
    by (simp add: getLocalTimezone_def demoEnv_def)
  from default_timezone_per_session
         [where ?e0.0 = demoEnv and e = demoEnv and z = "''Asia/Tokyo''" and st = twoSessions
            and a = 0 and ev = "SseClose 0"]
       len b n
  show ?thesis by (simp add: tokyoHostEnv_def)
qed

text \<open>
  Two sessions of one server process, the second opened after the system zone changed,
  have different default zones: the default is not one constant of the process.
\<close>

theorem default_timezone_differs_between_sessions:
  "reachable twoSessions
   \<and> localTz (boundServer (heap twoSessions ! 0)) = ''Europe/Paris''
   \<and> localTz (boundServer (heap twoSessions ! 1)) = ''Asia/Tokyo''
   \<and> get_current_time_handler (boundServer (heap twoSessions ! 0)) demoEnv None
       \<noteq> get_current_time_handler (boundServer (heap twoSessions ! 1)) demoEnv None"
proof -
  have s0: "boundServer (heap twoSessions ! 0) = \<lparr>localTz = ''Europe/Paris''\<rparr>"
    and s1: "boundServer (heap twoSessions ! 1) = \<lparr>localTz = ''Asia/Tokyo''\<rparr>"
    by (simp_all add: twoSessions_eq)
  have d: "get_current_time_handler \<lparr>localTz = ''Europe/Paris''\<rparr> demoEnv None
          \<noteq> get_current_time_handler \<lparr>localTz = ''Asia/Tokyo''\<rparr> demoEnv None"
    by code_simp
  show ?thesis
    unfolding s0 s1 using d reachable_twoSessions by simp
qed

section \<open>Converting there and back\<close>

text \<open>
  Arithmetic of local timestamps: a timestamp that is a day number, an hour and a minute
  has exactly these fields, and a timestamp of whole minutes splits into them.
\<close>

lemma time_of_day:
  fixes l d h m :: int
  assumes "l = d * 86400000 + h * 3600000 + m * 60000" "0 \<le> h" "h \<le> 23" "0 \<le> m" "m \<le> 59"
  shows "l div 86400000 = d" "l mod 86400000 div 3600000 = h" "l mod 3600000 div 60000 = m"
proof -
  define x where "x = h * 3600000 + m * 60000"
  have x: "0 \<le> x" "x < 86400000" using assms(2-5) by (simp_all add: x_def)
  have l: "l = x + d * 86400000" by (simp add: x_def assms(1))
  have lm: "l mod 86400000 = x" unfolding l using x by simp
  show "l div 86400000 = d" unfolding l using x by simp
  have m': "0 \<le> m * 60000" "m * 60000 < 3600000" using assms(4,5) by simp_all
  have "x div 3600000 = h" unfolding x_def using m' by simp
  then show "l mod 86400000 div 3600000 = h" by (simp add: lm)
  have eq: "l = m * 60000 + (d * 24 + h) * 3600000" by (simp add: assms(1) algebra_simps)
  have "l mod 3600000 = (m * 60000 + (d * 24 + h) * 3600000) mod 3600000"
    by (simp only: eq [symmetric])
  also have "\<dots> = (m * 60000) mod 3600000" by (rule mod_mult_self1)
  also have "\<dots> = m * 60000" using m' by simp
  finally show "l mod 3600000 div 60000 = m" by simp
qed

lemma day_split:
  fixes l :: int
  assumes "l mod 60000 = 0"
  shows "l = (l div 86400000) * 86400000 + (l mod 86400000 div 3600000) * 3600000
               + (l mod 3600000 div 60000) * 60000"
    and "0 \<le> l mod 86400000 div 3600000" "l mod 86400000 div 3600000 \<le> 23"
    and "0 \<le> l mod 3600000 div 60000" "l mod 3600000 div 60000 \<le> 59"
proof -
  from assms obtain k where k: "l = 60000 * k" by (auto simp: mod_eq_0_iff_dvd)
  define A where "A = k div 1440"
  define B where "B = k mod 1440"
  define C where "C = B div 60"
  define E where "E = k mod 60"
  have a: "l mod 86400000 = 60000 * B"
    using mult_mod_right [of 60000 k 1440] by (simp add: k B_def)
  have b: "l mod 3600000 = 60000 * E"
    using mult_mod_right [of 60000 k 60] by (simp add: k E_def)
  have c: "l div 86400000 = A"
    using div_mult_mult1 [of 60000 k 1440] by (simp add: k A_def)
  have d: "60000 * B div 3600000 = C"
    using div_mult_mult1 [of 60000 B 60] by (simp add: C_def)
  have e: "60000 * E div 60000 = E" by simp
  have "B mod 60 = E" by (simp add: B_def E_def mod_mod_cancel)
  moreover have "B = C * 60 + B mod 60" by (simp add: C_def)
  ultimately have f2: "B = C * 60 + E" by simp
  have f1: "k = A * 1440 + B" by (simp add: A_def B_def)
  show "l = (l div 86400000) * 86400000 + (l mod 86400000 div 3600000) * 3600000
               + (l mod 3600000 div 60000) * 60000"
    unfolding a b c d e using f1 f2 by (simp add: k)
  have B: "0 \<le> B" "B < 1440" by (simp_all add: B_def)
  have E: "0 \<le> E" "E < 60" by (simp_all add: E_def)
  from B f2 E have "0 \<le> C" "C \<le> 23" by linarith+
  then show "0 \<le> l mod 86400000 div 3600000" "l mod 86400000 div 3600000 \<le> 23"
    unfolding a d by simp_all
  from E show "0 \<le> l mod 3600000 div 60000" "l mod 3600000 div 60000 \<le> 59"
    unfolding b e by simp_all
qed

text \<open>
  When the offset of a zone does not change within a day of the clock's instant,
  \<open>fixOffset\<close> returns at its first test, and \<^verbatim>\<open>set\<close> and \<^verbatim>\<open>fromFormat\<close> put the
  hour and minute asked for on today's date in that zone.
\<close>

lemma objToLocalTS_set_fields:
  "objToLocalTS ((tsToObj t off)\<lparr>hour := h, minute := m, second := 0, millisecond := 0\<rparr>)
     = ((t + off * 60000) div 86400000) * 86400000 + h * 3600000 + m * 60000"
  by (simp add: objToLocalTS_def tsToObj_def Let_def)

lemma within_a_day:
  fixes L x :: int
  assumes "0 \<le> x" "x < 86400000"
  shows "\<bar>(L div 86400000) * 86400000 + x - L\<bar> < 86400000"
proof -
  have "L = (L div 86400000) * 86400000 + L mod 86400000" by simp
  moreover have "0 \<le> L mod 86400000" "L mod 86400000 < 86400000" by simp_all
  ultimately show ?thesis using assms by linarith
qed

lemma offsets_stableD:
  assumes "offsets_stable e z" "\<bar>t - clock e\<bar> < 86400000"
  shows "zoneOffset e z t = zoneOffset e z (clock e)"
  using assms unfolding offsets_stable_def by blast

lemma fixOffset_first_branch:
  assumes "zoneOffset e tz (localTS - off * 60 * 1000) = off"
  shows "fixOffset e localTS off tz = (localTS - off * 60 * 1000, off)"
  using assms by (simp add: fixOffset_def Let_def)

lemma fixOffset_stable:
  assumes "offsets_stable e z" and "off = zoneOffset e z (clock e)"
    and "localTS = ((clock e + off * 60000) div 86400000) * 86400000 + x"
    and "0 \<le> x" "x < 86400000"
  shows "fixOffset e localTS off z = (localTS - off * 60000, off)"
    and "\<bar>localTS - off * 60000 - clock e\<bar> < 86400000"
proof -
  have "localTS - off * 60000 - clock e
          = ((clock e + off * 60000) div 86400000) * 86400000 + x - (clock e + off * 60000)"
    by (simp add: assms(3))
  with within_a_day [OF assms(4,5), of "clock e + off * 60000"]
  show near: "\<bar>localTS - off * 60000 - clock e\<bar> < 86400000" by simp
  have eq: "localTS - off * 60 * 1000 = localTS - off * 60000" by simp
  have a: "zoneOffset e z (localTS - off * 60000) = zoneOffset e z (clock e)"
    by (rule offsets_stableD [OF assms(1) near])
  have "zoneOffset e z (localTS - off * 60 * 1000) = off"
    by (simp only: eq a assms(2) [symmetric])
  from fixOffset_first_branch [OF this]
  show "fixOffset e localTS off z = (localTS - off * 60000, off)"
    by (simp only: eq)
qed

lemma set_time_stable:
  assumes "offsets_stable e z" "0 \<le> h" "h \<le> 23" "0 \<le> m" "m \<le> 59"
  shows "set_time e \<lparr>ts = clock e, zone = z, offs = zoneOffset e z (clock e)\<rparr> h m
           = \<lparr>ts = ((clock e + zoneOffset e z (clock e) * 60000) div 86400000) * 86400000
                    + h * 3600000 + m * 60000 - zoneOffset e z (clock e) * 60000,
              zone = z, offs = zoneOffset e z (clock e)\<rparr>"
    and "\<bar>((clock e + zoneOffset e z (clock e) * 60000) div 86400000) * 86400000
                    + h * 3600000 + m * 60000 - zoneOffset e z (clock e) * 60000 - clock e\<bar>
           < 86400000"
proof -
  define off where "off = zoneOffset e z (clock e)"
  define x where "x = h * 3600000 + m * 60000"
  define localTS where "localTS = ((clock e + off * 60000) div 86400000) * 86400000 + x"
  have x: "0 \<le> x" "x < 86400000" using assms(2-5) by (simp_all add: x_def)
  note fo = fixOffset_stable [OF assms(1) off_def localTS_def x]
  have near: "\<bar>localTS - off * 60000 - clock e\<bar> < 86400000" by (rule fo(2))
  have st0: "zoneOffset e z (localTS - off * 60000) = zoneOffset e z (clock e)"
    by (rule offsets_stableD [OF assms(1) near])
  have st: "zoneOffset e z (localTS - off * 60000) = off"
    using st0 unfolding off_def .
  have loc: "objToLocalTS ((tsToObj (clock e) off)
               \<lparr>hour := h, minute := m, second := 0, millisecond := 0\<rparr>) = localTS"
    by (simp add: objToLocalTS_set_fields localTS_def x_def)
  have "set_time e \<lparr>ts = clock e, zone = z, offs = off\<rparr> h m
          = \<lparr>ts = localTS - off * 60000, zone = z, offs = off\<rparr>"
    by (simp add: set_time_def Let_def objToTS_def loc fo(1) st)
  then show "set_time e \<lparr>ts = clock e, zone = z, offs = zoneOffset e z (clock e)\<rparr> h m
           = \<lparr>ts = ((clock e + zoneOffset e z (clock e) * 60000) div 86400000) * 86400000
                    + h * 3600000 + m * 60000 - zoneOffset e z (clock e) * 60000,
              zone = z, offs = zoneOffset e z (clock e)\<rparr>"
    by (simp add: localTS_def x_def off_def)
  from near show "\<bar>((clock e + zoneOffset e z (clock e) * 60000) div 86400000) * 86400000
                    + h * 3600000 + m * 60000 - zoneOffset e z (clock e) * 60000 - clock e\<bar>
           < 86400000"
    by (simp add: localTS_def x_def off_def)
qed

lemma fromFormat_HHmm_stable:
  assumes "offsets_stable e SystemZone" "match_HHmm t = Some (h, m)"
    and "0 \<le> h" "h \<le> 23" "0 \<le> m" "m \<le> 59"
  shows "\<exists>p. fromFormat_HHmm e t = Some p \<and> dt_hour p = h \<and> dt_minute p = m"
proof -
  define off where "off = systemOffset e (clock e)"
  define x where "x = h * 3600000 + m * 60000"
  define localTS where "localTS = ((clock e + off * 60000) div 86400000) * 86400000 + x"
  have x: "0 \<le> x" "x < 86400000" using assms(3-6) by (simp_all add: x_def)
  have off: "off = zoneOffset e SystemZone (clock e)" by (simp add: off_def)
  note fo = fixOffset_stable [OF assms(1) off localTS_def x]
  have loc: "objToLocalTS ((tsToObj (clock e) off)
               \<lparr>hour := h, minute := m, second := 0, millisecond := 0\<rparr>) = localTS"
    by (simp add: objToLocalTS_set_fields localTS_def x_def)
  have valid: "\<not> hasInvalidTimeData ((tsToObj (clock e) off)
               \<lparr>hour := h, minute := m, second := 0, millisecond := 0\<rparr>)"
    using assms(3-6) by (simp add: hasInvalidTimeData_def)
  have p: "fromFormat_HHmm e t = Some \<lparr>ts = localTS - off * 60000, zone = SystemZone, offs = off\<rparr>"
    using assms(2) valid
    by (simp add: fromFormat_HHmm_def Let_def objToTS_def loc fo(1) flip: off_def)
  have l: "localTS - off * 60000 + off * 60 * 1000
             = ((clock e + off * 60000) div 86400000) * 86400000 + h * 3600000 + m * 60000"
    by (simp add: localTS_def x_def)
  note tod = time_of_day [OF l assms(3-6)]
  have "dt_hour \<lparr>ts = localTS - off * 60000, zone = SystemZone, offs = off\<rparr> = h"
    "dt_minute \<lparr>ts = localTS - off * 60000, zone = SystemZone, offs = off\<rparr> = m"
    using tod by (simp_all add: dt_hour_def dt_minute_def tsToObj_def Let_def)
  with p show ?thesis by simp
qed

lemma dt_fields:
  "dt_hour \<lparr>ts = T, zone = z, offs = off\<rparr> = (T + off * 60000) mod 86400000 div 3600000"
  "dt_minute \<lparr>ts = T, zone = z, offs = off\<rparr> = (T + off * 60000) mod 3600000 div 60000"
  by (simp_all add: dt_hour_def dt_minute_def tsToObj_def Let_def mult.commute)

lemma convertTime_dts_stable:
  assumes "isValidTimezone e A" "isValidTimezone e B"
    and "offsets_stable e (resolveZone e A)" "offsets_stable e (resolveZone e B)"
    and "offsets_stable e SystemZone"
    and "match_HHmm t = Some (h, m)" "0 \<le> h" "h \<le> 23" "0 \<le> m" "m \<le> 59"
  shows "convertTime_dts e A t B =
           Inr (\<lparr>ts = ((clock e + zoneOffset e (resolveZone e A) (clock e) * 60000) div 86400000)
                         * 86400000 + h * 3600000 + m * 60000
                       - zoneOffset e (resolveZone e A) (clock e) * 60000,
                  zone = resolveZone e A, offs = zoneOffset e (resolveZone e A) (clock e)\<rparr>,
                \<lparr>ts = ((clock e + zoneOffset e (resolveZone e A) (clock e) * 60000) div 86400000)
                         * 86400000 + h * 3600000 + m * 60000
                       - zoneOffset e (resolveZone e A) (clock e) * 60000,
                  zone = resolveZone e B, offs = zoneOffset e (resolveZone e B) (clock e)\<rparr>)"
proof -
  define a where "a = zoneOffset e (resolveZone e A) (clock e)"
  define T where "T = ((clock e + a * 60000) div 86400000) * 86400000 + h * 3600000 + m * 60000
                        - a * 60000"
  from fromFormat_HHmm_stable [OF assms(5-10)] obtain p where
    p: "fromFormat_HHmm e t = Some p" "dt_hour p = h" "dt_minute p = m" by blast
  note st = set_time_stable [OF assms(3) assms(7-10)]
  have s: "set_time e (setZone e (DateTime_now e) A) h m
             = \<lparr>ts = T, zone = resolveZone e A, offs = a\<rparr>"
    unfolding now_in_zone st(1) T_def a_def ..
  have near: "\<bar>T - clock e\<bar> < 86400000" using st(2) unfolding T_def a_def .
  have "offs \<lparr>ts = T, zone = resolveZone e A, offs = a\<rparr>
          = zoneOffset e (zone \<lparr>ts = T, zone = resolveZone e A, offs = a\<rparr>)
              (ts \<lparr>ts = T, zone = resolveZone e A, offs = a\<rparr>)"
    using offsets_stableD [OF assms(3) near] by (simp add: a_def)
  from setZone_fields [OF this, of B]
  have tg: "setZone e \<lparr>ts = T, zone = resolveZone e A, offs = a\<rparr> B
              = \<lparr>ts = T, zone = resolveZone e B, offs = zoneOffset e (resolveZone e B) (clock e)\<rparr>"
    using offsets_stableD [OF assms(4) near] by simp
  have "convertTime_dts e A t B =
          Inr (\<lparr>ts = T, zone = resolveZone e A, offs = a\<rparr>,
               \<lparr>ts = T, zone = resolveZone e B, offs = zoneOffset e (resolveZone e B) (clock e)\<rparr>)"
    using assms(1,2) by (simp add: convertTime_dts_def p s tg)
  then show ?thesis unfolding T_def a_def .
qed

lemma padStart_two:
  assumes "0 \<le> x" "x < 100"
  shows "padStart x 2 = [digit (nat x div 10), digit (nat x mod 10)]"
proof -
  from assms have "nat x < 100" by simp
  from show_nat_two_digits [OF this] assms show ?thesis
    by (simp add: padStart_def show_int_def)
qed

lemma two_digits_value:
  assumes "0 \<le> x" "x < 100"
  shows "digitVal (digit (nat x div 10)) * 10 + digitVal (digit (nat x mod 10)) = x"
proof -
  from assms have lt: "nat x div 10 < 10" by simp
  have "int (nat x div 10) * 10 + int (nat x mod 10) = int (nat x)"
    by (simp add: zdiv_int zmod_int)
  with assms lt show ?thesis by (simp add: digitVal_digit)
qed

lemma match_HHmm_padded:
  assumes "0 \<le> h" "h < 100" "0 \<le> m" "m < 100"
  shows "match_HHmm (padStart h 2 @ '':'' @ padStart m 2) = Some (h, m)"
  using two_digits_value [OF assms(1,2)] two_digits_value [OF assms(3,4)]
  by (simp add: padStart_two [OF assms(1,2)] padStart_two [OF assms(3,4)] isDigit_digit)

lemma isDigit_digitVal:
  assumes "isDigit a"
  shows "a = digit (nat (digitVal a))" "0 \<le> digitVal a" "digitVal a \<le> 9"
  using assms by (auto simp: isDigit_def digitVal_def digit_def)

lemma padStart_of_digits:
  assumes "isDigit a" "isDigit b"
  shows "padStart (digitVal a * 10 + digitVal b) 2 = [a, b]"
proof -
  note da = isDigit_digitVal [OF assms(1)]
  note db = isDigit_digitVal [OF assms(2)]
  define na where "na = nat (digitVal a)"
  define nb where "nb = nat (digitVal b)"
  have ab: "digitVal a = int na" "digitVal b = int nb" "na \<le> 9" "nb \<le> 9"
    using da(2,3) db(2,3) by (simp_all add: na_def nb_def)
  have n: "nat (digitVal a * 10 + digitVal b) = na * 10 + nb"
    unfolding ab by (simp add: nat_add_distrib nat_mult_distrib)
  have x: "0 \<le> digitVal a * 10 + digitVal b" "digitVal a * 10 + digitVal b < 100"
    using ab by simp_all
  have "padStart (digitVal a * 10 + digitVal b) 2 = [digit na, digit nb]"
    unfolding padStart_two [OF x] n using ab(3,4) by simp
  also have "\<dots> = [a, b]" using da(1) db(1) by (simp add: na_def nb_def)
  finally show ?thesis .
qed

lemma strict_HHMM_match:
  assumes "strict_HHMM t"
  shows "\<exists>h m. match_HHmm t = Some (h, m) \<and> 0 \<le> h \<and> h \<le> 23 \<and> 0 \<le> m \<and> m \<le> 59
               \<and> padStart h 2 @ '':'' @ padStart m 2 = t"
proof (cases t rule: strict_HHMM.cases)
  case (1 a b c d f)
  with assms have dg: "isDigit a" "isDigit b" "isDigit d" "isDigit f" and c: "c = CHR '':''"
    and r: "digitVal a * 10 + digitVal b \<le> 23" "digitVal d * 10 + digitVal f \<le> 59"
    by simp_all
  from 1 c dg r two_digit_value(1) [OF dg(1,2)] two_digit_value(1) [OF dg(3,4)]
    padStart_of_digits [OF dg(1,2)] padStart_of_digits [OF dg(3,4)]
  show ?thesis by simp
qed (use assms in simp_all)

lemma round_trip_stable:
  assumes v: "isValidTimezone e A" "isValidTimezone e B"
    and sA: "offsets_stable e (resolveZone e A)" and sB: "offsets_stable e (resolveZone e B)"
    and sS: "offsets_stable e SystemZone"
    and t: "strict_HHMM t"
  shows "\<exists>s tg s' tg'. convertTime_dts e A t B = Inr (s, tg) \<and> wallClock s = t
            \<and> convertTime_dts e B (wallClock tg) A = Inr (s', tg')
            \<and> ts tg' = ts s' \<and> wallClock tg' = t"
proof -
  from strict_HHMM_match [OF t] obtain h m where
    hm: "match_HHmm t = Some (h, m)" "0 \<le> h" "h \<le> 23" "0 \<le> m" "m \<le> 59"
    and str: "padStart h 2 @ '':'' @ padStart m 2 = t" by blast
  define a where "a = zoneOffset e (resolveZone e A) (clock e)"
  define b where "b = zoneOffset e (resolveZone e B) (clock e)"
  define dA where "dA = (clock e + a * 60000) div 86400000"
  define dB where "dB = (clock e + b * 60000) div 86400000"
  define T1 where "T1 = dA * 86400000 + h * 3600000 + m * 60000 - a * 60000"
  define s where "s = \<lparr>ts = T1, zone = resolveZone e A, offs = a\<rparr>"
  define tg where "tg = \<lparr>ts = T1, zone = resolveZone e B, offs = b\<rparr>"
  have first: "convertTime_dts e A t B = Inr (s, tg)"
    unfolding s_def tg_def T1_def dA_def a_def b_def
    by (rule convertTime_dts_stable [OF v sA sB sS hm])
  have l0: "T1 + a * 60000 = dA * 86400000 + h * 3600000 + m * 60000" by (simp add: T1_def)
  note tod0 = time_of_day [OF l0 hm(2-5)]
  have ws: "wallClock s = t"
    unfolding wallClock_def s_def dt_fields tod0 by (rule str)
  define L1 where "L1 = T1 + b * 60000"
  define h' where "h' = L1 mod 86400000 div 3600000"
  define m' where "m' = L1 mod 3600000 div 60000"
  have "L1 = 60000 * (dA * 1440 + h * 60 + m - a + b)" by (simp add: L1_def T1_def)
  then have "L1 mod 60000 = 0" by simp
  note ds = day_split [OF this, folded h'_def m'_def]
  have hm': "0 \<le> h'" "h' \<le> 23" "0 \<le> m'" "m' \<le> 59" using ds(2-5) .
  have wt: "wallClock tg = padStart h' 2 @ '':'' @ padStart m' 2"
    unfolding wallClock_def tg_def dt_fields h'_def m'_def L1_def ..
  have "h' < 100" "m' < 100" using hm' by simp_all
  with hm' have parse: "match_HHmm (wallClock tg) = Some (h', m')"
    unfolding wt by (intro match_HHmm_padded)
  define T2 where "T2 = dB * 86400000 + h' * 3600000 + m' * 60000 - b * 60000"
  define s' where "s' = \<lparr>ts = T2, zone = resolveZone e B, offs = b\<rparr>"
  define tg' where "tg' = \<lparr>ts = T2, zone = resolveZone e A, offs = a\<rparr>"
  have second: "convertTime_dts e B (wallClock tg) A = Inr (s', tg')"
    unfolding s'_def tg'_def T2_def dB_def a_def b_def
    by (rule convertTime_dts_stable [OF v(2,1) sB sA sS parse hm'])
  have "T2 + a * 60000 = dB * 86400000 + (L1 - (L1 div 86400000) * 86400000) + (a - b) * 60000"
    using ds(1) by (simp add: T2_def)
  also have "\<dots> = (dB - L1 div 86400000 + dA) * 86400000 + h * 3600000 + m * 60000"
    by (simp add: L1_def T1_def algebra_simps)
  finally have l2: "T2 + a * 60000
      = (dB - L1 div 86400000 + dA) * 86400000 + h * 3600000 + m * 60000" .
  note tod2 = time_of_day [OF l2 hm(2-5)]
  have wb: "wallClock tg' = t"
    unfolding wallClock_def tg'_def dt_fields tod2 by (rule str)
  have "ts tg' = ts s'" by (simp add: s'_def tg'_def)
  with first ws second wb show ?thesis by blast
qed

text \<open>
  What \<open>convertTime\<close> returns: the two \<open>datetime\<close> strings are the prints of the two
  \<^verbatim>\<open>DateTime\<close> values, and the \<^verbatim>\<open>HH:MM\<close> a caller reads after the \<^verbatim>\<open>T\<close> of a
  printed \<^verbatim>\<open>DateTime\<close> is its wall-clock time.
\<close>

lemma digit_not_T: "digit n \<noteq> CHR ''T''"
  using digit_cases [of n] by (auto simp: digit_def)

lemma show_nat_no_T: "CHR ''T'' \<notin> set (show_nat n)"
proof (induction n rule: show_nat.induct)
  case (1 n)
  show ?case
  proof (cases "n < 10")
    case True
    then show ?thesis by (simp add: show_nat.simps [of n] digit_not_T [symmetric])
  next
    case False
    with 1 show ?thesis by (simp add: show_nat.simps [of n] digit_not_T [symmetric])
  qed
qed

lemma padStart_no_T: "CHR ''T'' \<notin> set (padStart x n)"
  by (auto simp: padStart_def padStart0_def show_int_def show_nat_no_T)

lemma toISODate_no_T: "CHR ''T'' \<notin> set (toISODate dt)"
  by (auto simp: toISODate_def Let_def padStart_no_T split: prod.splits)

lemma dt_hour_range: "0 \<le> dt_hour dt" "dt_hour dt < 100"
proof -
  define l where "l = (ts dt + offs dt * 60 * 1000) mod 86400000"
  have "0 \<le> l" "l < 86400000" by (simp_all add: l_def)
  then have "0 \<le> l div 3600000" "l div 3600000 < 100" by simp_all
  then show "0 \<le> dt_hour dt" "dt_hour dt < 100"
    by (simp_all add: dt_hour_def tsToObj_def Let_def l_def)
qed

lemma dt_minute_range: "0 \<le> dt_minute dt" "dt_minute dt < 100"
proof -
  define l where "l = (ts dt + offs dt * 60 * 1000) mod 3600000"
  have "0 \<le> l" "l < 3600000" by (simp_all add: l_def)
  then have "0 \<le> l div 60000" "l div 60000 < 100" by simp_all
  then show "0 \<le> dt_minute dt" "dt_minute dt < 100"
    by (simp_all add: dt_minute_def tsToObj_def Let_def l_def)
qed

lemma length_wallClock: "length (wallClock dt) = 5"
  by (simp add: wallClock_def padStart_two [OF dt_hour_range] padStart_two [OF dt_minute_range])

lemma toISO_shape:
  "\<exists>rest. toISO dt = toISODate dt @ CHR ''T'' # wallClock dt @ rest"
  by (simp add: toISO_def toISOTime_def wallClock_def dt_hour_def dt_minute_def Let_def)

lemma isoWallClock_toISO: "isoWallClock (toISO dt) = wallClock dt"
proof -
  from toISO_shape obtain rest where
    s: "toISO dt = toISODate dt @ CHR ''T'' # wallClock dt @ rest" by blast
  have "dropWhile (\<lambda>c. c \<noteq> CHR ''T'') (toISODate dt @ CHR ''T'' # wallClock dt @ rest)
          = CHR ''T'' # wallClock dt @ rest"
    using toISODate_no_T [of dt] by (auto simp: dropWhile_append3)
  then show ?thesis
    unfolding isoWallClock_def s by (simp add: length_wallClock)
qed

lemma convertTime_Inr:
  assumes "convertTime e A t B = Inr r"
  shows "\<exists>s tg. convertTime_dts e A t B = Inr (s, tg)
           \<and> timezone (source r) = A \<and> datetime (source r) = toISO s
           \<and> timezone (target r) = B \<and> datetime (target r) = toISO tg"
  using assms by (auto simp: convertTime_def Let_def split: sum.splits)

lemma convertTime_of_dts:
  assumes "convertTime_dts e A t B = Inr (s, tg)"
  shows "\<exists>r. convertTime e A t B = Inr r
           \<and> datetime (source r) = toISO s \<and> datetime (target r) = toISO tg"
  using assms by (simp add: convertTime_def Let_def)

text \<open>
  Claim C6, as the code has it. The two \<open>datetime\<close> strings of a result are the prints
  of one instant, in the source zone and in the target zone, each with that zone's offset
  at the instant. When the UTC offsets of zone A, of zone B and of the server's system
  zone do not change within one day of the clock's instant, every strict \<^verbatim>\<open>HH:MM\<close> time
  is the wall-clock time of the source \<open>datetime\<close>, and converting the wall-clock time of
  the target \<open>datetime\<close> back from B to A, at the same clock reading, returns a target
  \<open>datetime\<close> in A whose wall-clock time is the original time.
\<close>

theorem convertTime_round_trip:
  "(\<forall>r. convertTime e A t B = Inr r \<longrightarrow>
      (\<exists>s tg. datetime (source r) = toISO s \<and> datetime (target r) = toISO tg
         \<and> ts tg = ts s
         \<and> zone s = resolveZone e A \<and> offs s = zoneOffset e (resolveZone e A) (ts s)
         \<and> zone tg = resolveZone e B \<and> offs tg = zoneOffset e (resolveZone e B) (ts s)))
   \<and> (isValidTimezone e A \<and> isValidTimezone e B \<and> strict_HHMM t
       \<and> offsets_stable e (resolveZone e A) \<and> offsets_stable e (resolveZone e B)
       \<and> offsets_stable e SystemZone
       \<longrightarrow> (\<exists>r r'. convertTime e A t B = Inr r
               \<and> isoWallClock (datetime (source r)) = t
               \<and> convertTime e B (isoWallClock (datetime (target r))) A = Inr r'
               \<and> timezone (target r') = A
               \<and> isoWallClock (datetime (target r')) = t))"
proof (intro conjI allI impI)
  fix r
  assume "convertTime e A t B = Inr r"
  from convertTime_Inr [OF this] obtain s tg where
    d: "convertTime_dts e A t B = Inr (s, tg)"
    and p: "datetime (source r) = toISO s" "datetime (target r) = toISO tg" by blast
  from convertTime_dts_Inr [OF d] p
  show "\<exists>s tg. datetime (source r) = toISO s \<and> datetime (target r) = toISO tg
         \<and> ts tg = ts s
         \<and> zone s = resolveZone e A \<and> offs s = zoneOffset e (resolveZone e A) (ts s)
         \<and> zone tg = resolveZone e B \<and> offs tg = zoneOffset e (resolveZone e B) (ts s)"
    by blast
next
  assume h: "isValidTimezone e A \<and> isValidTimezone e B \<and> strict_HHMM t
       \<and> offsets_stable e (resolveZone e A) \<and> offsets_stable e (resolveZone e B)
       \<and> offsets_stable e SystemZone"
  then have "\<exists>s tg s' tg'. convertTime_dts e A t B = Inr (s, tg) \<and> wallClock s = t
            \<and> convertTime_dts e B (wallClock tg) A = Inr (s', tg')
            \<and> ts tg' = ts s' \<and> wallClock tg' = t"
    by (intro round_trip_stable) simp_all
  then obtain s tg s' tg' where
    d1: "convertTime_dts e A t B = Inr (s, tg)" and w1: "wallClock s = t"
    and d2: "convertTime_dts e B (wallClock tg) A = Inr (s', tg')" and w2: "wallClock tg' = t"
    by blast
  from convertTime_of_dts [OF d1] obtain r where
    r: "convertTime e A t B = Inr r" "datetime (source r) = toISO s"
       "datetime (target r) = toISO tg" by blast
  from convertTime_of_dts [OF d2] obtain r' where
    r': "convertTime e B (wallClock tg) A = Inr r'" "datetime (target r') = toISO tg'" by blast
  from convertTime_Inr [OF r'(1)] have tz: "timezone (target r') = A" by blast
  have "isoWallClock (datetime (source r)) = t"
    "isoWallClock (datetime (target r)) = wallClock tg"
    "isoWallClock (datetime (target r')) = t"
    by (simp_all add: r r' isoWallClock_toISO w1 w2)
  with r(1) r'(1) tz
  show "\<exists>r r'. convertTime e A t B = Inr r
               \<and> isoWallClock (datetime (source r)) = t
               \<and> convertTime e B (isoWallClock (datetime (target r))) A = Inr r'
               \<and> timezone (target r') = A
               \<and> isoWallClock (datetime (target r')) = t"
    by auto
qed

lemma demo_stable:
  "offsets_stable demoEnv (resolveZone demoEnv ''Asia/Tokyo'')"
  "offsets_stable demoEnv (resolveZone demoEnv ''Asia/Kathmandu'')"
  "offsets_stable demoEnv SystemZone"
  by (simp_all add: offsets_stable_def demo_eval)

theorem convertTime_round_trip_witness:
  "isValidTimezone demoEnv ''Asia/Tokyo'' \<and> isValidTimezone demoEnv ''Asia/Kathmandu''
   \<and> strict_HHMM ''09:30''
   \<and> offsets_stable demoEnv (resolveZone demoEnv ''Asia/Tokyo'')
   \<and> offsets_stable demoEnv (resolveZone demoEnv ''Asia/Kathmandu'')
   \<and> offsets_stable demoEnv SystemZone
   \<and> convertTime demoEnv ''Asia/Tokyo'' ''09:30'' ''Asia/Kathmandu''
       = Inr \<lparr>source = \<lparr>timezone = ''Asia/Tokyo'', datetime = ''2023-11-15T09:30:00+09:00''\<rparr>,
              target = \<lparr>timezone = ''Asia/Kathmandu'', datetime = ''2023-11-15T06:15:00+05:45''\<rparr>,
              time_difference = ''-3.25h''\<rparr>
   \<and> (\<exists>r'. convertTime demoEnv ''Asia/Kathmandu'' (isoWallClock ''2023-11-15T06:15:00+05:45'')
               ''Asia/Tokyo'' = Inr r'
          \<and> timezone (target r') = ''Asia/Tokyo''
          \<and> isoWallClock (datetime (target r')) = ''09:30'')"
proof -
  have v: "isValidTimezone demoEnv ''Asia/Tokyo''" "isValidTimezone demoEnv ''Asia/Kathmandu''"
    by (simp_all add: isValidTimezone_def demo_eval)
  have s: "strict_HHMM ''09:30''" by (simp add: isDigit_def digitVal_def)
  have c: "convertTime demoEnv ''Asia/Tokyo'' ''09:30'' ''Asia/Kathmandu''
       = Inr \<lparr>source = \<lparr>timezone = ''Asia/Tokyo'', datetime = ''2023-11-15T09:30:00+09:00''\<rparr>,
              target = \<lparr>timezone = ''Asia/Kathmandu'', datetime = ''2023-11-15T06:15:00+05:45''\<rparr>,
              time_difference = ''-3.25h''\<rparr>"
    by code_simp
  from convertTime_round_trip
         [of demoEnv "''Asia/Tokyo''" "''09:30''" "''Asia/Kathmandu''"] v s demo_stable
  have "\<exists>r r'. convertTime demoEnv ''Asia/Tokyo'' ''09:30'' ''Asia/Kathmandu'' = Inr r
               \<and> isoWallClock (datetime (source r)) = ''09:30''
               \<and> convertTime demoEnv ''Asia/Kathmandu'' (isoWallClock (datetime (target r)))
                    ''Asia/Tokyo'' = Inr r'
               \<and> timezone (target r') = ''Asia/Tokyo''
               \<and> isoWallClock (datetime (target r')) = ''09:30''"
    by blast
  then have "\<exists>r'. convertTime demoEnv ''Asia/Kathmandu'' (isoWallClock ''2023-11-15T06:15:00+05:45'')
               ''Asia/Tokyo'' = Inr r'
          \<and> timezone (target r') = ''Asia/Tokyo''
          \<and> isoWallClock (datetime (target r')) = ''09:30''"
    unfolding c by auto
  with v s demo_stable c show ?thesis by blast
qed

text \<open>
  Without that condition the round trip can fail. On 2024-03-10 New York has no 02:30:
  luxon moves it to 03:30 (UTC-4), so the source \<open>datetime\<close> already reads 03:30; the
  target reads 07:30 in UTC, and converting 07:30 back from UTC returns 03:30 in New York,
  not the 02:30 asked for.
\<close>

theorem convertTime_round_trip_dst_gap:
  "isValidTimezone dstEnv ''America/New_York'' \<and> isValidTimezone dstEnv ''UTC''
   \<and> strict_HHMM ''02:30''
   \<and> convertTime dstEnv ''America/New_York'' ''02:30'' ''UTC''
       = Inr \<lparr>source = \<lparr>timezone = ''America/New_York'',
                         datetime = ''2024-03-10T03:30:00-04:00''\<rparr>,
              target = \<lparr>timezone = ''UTC'', datetime = ''2024-03-10T07:30:00Z''\<rparr>,
              time_difference = ''+4h''\<rparr>
   \<and> isoWallClock ''2024-03-10T03:30:00-04:00'' = ''03:30''
   \<and> isoWallClock ''2024-03-10T07:30:00Z'' = ''07:30''
   \<and> convertTime dstEnv ''UTC'' ''07:30'' ''America/New_York''
       = Inr \<lparr>source = \<lparr>timezone = ''UTC'', datetime = ''2024-03-10T07:30:00Z''\<rparr>,
              target = \<lparr>timezone = ''America/New_York'',
                         datetime = ''2024-03-10T03:30:00-04:00''\<rparr>,
              time_difference = ''-4h''\<rparr>"
  by code_simp

section \<open>The empty timezone argument\<close>

lemma get_current_time_handler_success:
  assumes "getCurrentTime e (js_or timezone_arg (localTz srv)) = Inr r"
  shows "get_current_time_handler srv e timezone_arg
           = Inr \<lparr>content = [TextContent (JSON_stringify_TimeResult 0 r)]\<rparr>"
  using assms by (simp add: get_current_time_handler_def Let_def)

lemma convert_time_handler_success:
  assumes "convertTime e (js_or source_timezone (localTz srv)) time
             (js_or target_timezone (localTz srv)) = Inr r"
  shows "convert_time_handler srv e source_timezone time target_timezone
           = Inr \<lparr>content = [TextContent (JSON_stringify_TimeConversionResult r)]\<rparr>"
  using assms by (simp add: convert_time_handler_def Let_def)

text \<open>
  Claim C9. For both tools an empty-string timezone argument is treated as an absent one
  and resolves to the server's \<open>localTz\<close>: the handler answers with the engine's result
  for \<open>localTz\<close> (as source, as target or as the zone of the current time), which is a
  success whenever \<open>localTz\<close> is a valid zone, and when \<open>localTz\<close> is not valid the error
  text names \<open>localTz\<close>. The result is the one for an absent argument. Passed on as it
  is, the empty string would have been rejected by the engine as an invalid timezone.
\<close>

theorem empty_timezone_argument_is_absent:
  "get_current_time_handler srv e (Some []) = get_current_time_handler srv e None
   \<and> convert_time_handler srv e (Some []) time target_timezone
       = convert_time_handler srv e None time target_timezone
   \<and> convert_time_handler srv e source_timezone time (Some [])
       = convert_time_handler srv e source_timezone time None
   \<and> js_or (Some []) (localTz srv) = localTz srv
   \<and> getCurrentTime e [] = Inl (Error ''Invalid timezone: '')
   \<and> (\<forall>r. getCurrentTime e (localTz srv) = Inr r \<longrightarrow>
          get_current_time_handler srv e (Some [])
            = Inr \<lparr>content = [TextContent (JSON_stringify_TimeResult 0 r)]\<rparr>
          \<and> timezone r = localTz srv)
   \<and> (isValidTimezone e (localTz srv) \<longrightarrow> (\<exists>r. getCurrentTime e (localTz srv) = Inr r))
   \<and> (\<not> isValidTimezone e (localTz srv) \<longrightarrow>
          (\<exists>txt. get_current_time_handler srv e (Some []) = Inr \<lparr>content = [TextContent txt]\<rparr>
                 \<and> str_includes txt (localTz srv)))
   \<and> (\<forall>r. convertTime e (localTz srv) time (js_or target_timezone (localTz srv)) = Inr r \<longrightarrow>
          convert_time_handler srv e (Some []) time target_timezone
            = Inr \<lparr>content = [TextContent (JSON_stringify_TimeConversionResult r)]\<rparr>
          \<and> timezone (source r) = localTz srv)
   \<and> (\<forall>r. convertTime e (js_or source_timezone (localTz srv)) time (localTz srv) = Inr r \<longrightarrow>
          convert_time_handler srv e source_timezone time (Some [])
            = Inr \<lparr>content = [TextContent (JSON_stringify_TimeConversionResult r)]\<rparr>
          \<and> timezone (target r) = localTz srv)
   \<and> (isValidTimezone e (localTz srv) \<and> (strict_HHMM time \<or> time = ''24:00'') \<longrightarrow>
          (\<exists>r. convertTime e (localTz srv) time (localTz srv) = Inr r
               \<and> convert_time_handler srv e (Some []) time (Some [])
                   = Inr \<lparr>content = [TextContent (JSON_stringify_TimeConversionResult r)]\<rparr>))"
proof -
  have eqs: "get_current_time_handler srv e (Some []) = get_current_time_handler srv e None"
    "convert_time_handler srv e (Some []) time target_timezone
       = convert_time_handler srv e None time target_timezone"
    "convert_time_handler srv e source_timezone time (Some [])
       = convert_time_handler srv e source_timezone time None"
    "js_or (Some []) (localTz srv) = localTz srv"
    "getCurrentTime e [] = Inl (Error ''Invalid timezone: '')"
    by (simp_all add: get_current_time_handler_def convert_time_handler_def getCurrentTime_def
        isValidTimezone_def)
  have g: "get_current_time_handler srv e (Some [])
            = Inr \<lparr>content = [TextContent (JSON_stringify_TimeResult 0 r)]\<rparr>
          \<and> timezone r = localTz srv"
    if "getCurrentTime e (localTz srv) = Inr r" for r
    using get_current_time_handler_success [of e "Some []" srv r] getCurrentTime_timezone [OF that]
      that by simp
  have gv: "\<exists>r. getCurrentTime e (localTz srv) = Inr r" if "isValidTimezone e (localTz srv)"
    using that by (simp add: getCurrentTime_def Let_def)
  have gi: "\<exists>txt. get_current_time_handler srv e (Some []) = Inr \<lparr>content = [TextContent txt]\<rparr>
                 \<and> str_includes txt (localTz srv)"
    if "\<not> isValidTimezone e (localTz srv)"
    using get_current_time_handler_names_zone [of e "Some []" srv] that by simp
  have cs: "convert_time_handler srv e (Some []) time target_timezone
            = Inr \<lparr>content = [TextContent (JSON_stringify_TimeConversionResult r)]\<rparr>
          \<and> timezone (source r) = localTz srv"
    if "convertTime e (localTz srv) time (js_or target_timezone (localTz srv)) = Inr r" for r
    using convert_time_handler_success [of e "Some []" srv time target_timezone r]
      convertTime_Inr [OF that] that by auto
  have ct: "convert_time_handler srv e source_timezone time (Some [])
            = Inr \<lparr>content = [TextContent (JSON_stringify_TimeConversionResult r)]\<rparr>
          \<and> timezone (target r) = localTz srv"
    if "convertTime e (js_or source_timezone (localTz srv)) time (localTz srv) = Inr r" for r
    using convert_time_handler_success [of e source_timezone srv time "Some []" r]
      convertTime_Inr [OF that] that by auto
  have cv: "\<exists>r. convertTime e (localTz srv) time (localTz srv) = Inr r
               \<and> convert_time_handler srv e (Some []) time (Some [])
                   = Inr \<lparr>content = [TextContent (JSON_stringify_TimeConversionResult r)]\<rparr>"
    if "isValidTimezone e (localTz srv) \<and> (strict_HHMM time \<or> time = ''24:00'')"
  proof -
    from that fromFormat_HHmm_accepts [of e time]
    obtain r where r: "convertTime e (localTz srv) time (localTz srv) = Inr r"
      by (auto simp: convertTime_def convertTime_dts_def Let_def)
    with convert_time_handler_success [of e "Some []" srv time "Some []" r]
    show ?thesis by simp
  qed
  from eqs g gv gi cs ct cv show ?thesis by (intro conjI allI impI) blast+
qed

theorem empty_timezone_argument_is_absent_witness:
  "isValidTimezone demoEnv (localTz (buildMcpServer demoEnv))
   \<and> getCurrentTime demoEnv (localTz (buildMcpServer demoEnv))
       = Inr \<lparr>timezone = ''Europe/Paris'', datetime = ''2023-11-14T23:13:20.123+01:00''\<rparr>
   \<and> get_current_time_handler (buildMcpServer demoEnv) demoEnv (Some [])
       = Inr \<lparr>content = [TextContent (JSON_stringify_TimeResult 0
                 \<lparr>timezone = ''Europe/Paris'', datetime = ''2023-11-14T23:13:20.123+01:00''\<rparr>)]\<rparr>
   \<and> strict_HHMM ''09:00''
   \<and> (\<exists>r. convertTime demoEnv ''Europe/Paris'' ''09:00'' ''Europe/Paris'' = Inr r
          \<and> convert_time_handler (buildMcpServer demoEnv) demoEnv (Some []) ''09:00'' (Some [])
              = Inr \<lparr>content = [TextContent (JSON_stringify_TimeConversionResult r)]\<rparr>)
   \<and> \<not> isValidTimezone demoEnv (localTz \<lparr>localTz = ''Mars/Gale_Crater''\<rparr>)
   \<and> (\<exists>txt. get_current_time_handler \<lparr>localTz = ''Mars/Gale_Crater''\<rparr> demoEnv (Some [])
               = Inr \<lparr>content = [TextContent txt]\<rparr>
          \<and> str_includes txt ''Mars/Gale_Crater'')"
proof -
  have l: "localTz (buildMcpServer demoEnv) = ''Europe/Paris''"
    by (simp add: buildMcpServer_def getLocalTimezone_def demoEnv_def)
  have v: "isValidTimezone demoEnv ''Europe/Paris''"
    and nv: "\<not> isValidTimezone demoEnv ''Mars/Gale_Crater''"
    by (simp_all add: isValidTimezone_def demo_eval)
  have g: "getCurrentTime demoEnv ''Europe/Paris''
       = Inr \<lparr>timezone = ''Europe/Paris'', datetime = ''2023-11-14T23:13:20.123+01:00''\<rparr>"
    by code_simp
  have s: "strict_HHMM ''09:00''" by (simp add: isDigit_def digitVal_def)
  note a = empty_timezone_argument_is_absent
             [where srv = "buildMcpServer demoEnv" and e = demoEnv and time = "''09:00''",
              unfolded l]
  note b = empty_timezone_argument_is_absent
             [where srv = "\<lparr>localTz = ''Mars/Gale_Crater''\<rparr>" and e = demoEnv]
  from a g have g1: "get_current_time_handler (buildMcpServer demoEnv) demoEnv (Some [])
       = Inr \<lparr>content = [TextContent (JSON_stringify_TimeResult 0
                 \<lparr>timezone = ''Europe/Paris'', datetime = ''2023-11-14T23:13:20.123+01:00''\<rparr>)]\<rparr>"
    by blast
  from a v s have c1: "\<exists>r. convertTime demoEnv ''Europe/Paris'' ''09:00'' ''Europe/Paris'' = Inr r
          \<and> convert_time_handler (buildMcpServer demoEnv) demoEnv (Some []) ''09:00'' (Some [])
              = Inr \<lparr>content = [TextContent (JSON_stringify_TimeConversionResult r)]\<rparr>"
    by blast
  have nv': "\<not> isValidTimezone demoEnv (localTz \<lparr>localTz = ''Mars/Gale_Crater''\<rparr>)"
    using nv by simp
  from b nv' have "\<exists>txt. get_current_time_handler \<lparr>localTz = ''Mars/Gale_Crater''\<rparr> demoEnv (Some [])
               = Inr \<lparr>content = [TextContent txt]\<rparr>
          \<and> str_includes txt (localTz \<lparr>localTz = ''Mars/Gale_Crater''\<rparr>)"
    by blast
  then have i1: "\<exists>txt. get_current_time_handler \<lparr>localTz = ''Mars/Gale_Crater''\<rparr> demoEnv (Some [])
               = Inr \<lparr>content = [TextContent txt]\<rparr>
          \<and> str_includes txt ''Mars/Gale_Crater''"
    by (simp del: str_includes.simps)
  from l v nv g g1 s c1 i1 show ?thesis by (simp del: str_includes.simps)
qed

end
